theory Spec2Isabelle
  imports Main
begin

section \<open>Data model\<close>

text \<open>
  The interfaces of the types module. TypeScript interfaces are erased at run time, and
  \<open>ModuleContent\<close> is also the declared type of the object that \<open>generateModuleDetail\<close>
  parses out of the remote response (the object \<open>{}\<close> when the response carries no text),
  so every property of a module may be absent: a property is an option, \<open>None\<close> being
  \<open>undefined\<close>. Property names that clash with HOL constants or with another interface carry
  a suffix (\<open>id_mod\<close>, \<open>duration_mod\<close>, \<open>title_ice\<close>, \<open>duration_ice\<close>, \<open>id_lo\<close>, \<open>text_lo\<close>,
  \<open>id_plan\<close>, \<open>basics_plan\<close>, \<open>outcomes_plan\<close>). The review questions of a day are an
  option as well: one copy of the service module can write \<open>undefined\<close> into them.
\<close>

record CourseBasics =
  trainerName :: string
  courseTitle :: string
  duration :: string
  location :: string

record LearningOutcome =
  id_lo :: string
  text_lo :: string

record ModuleContent =
  id_mod :: "string option"
  title :: "string option"
  subModules :: "string list option"
  methodology :: "string option"
  resources :: "string option"
  duration_mod :: "string option"
  slideNumbers :: "string option"

record IceBreaker =
  title_ice :: string
  description :: string
  duration_ice :: string

record DayPlan =
  dayNumber :: int
  iceBreaker :: IceBreaker
  recap :: "string option"
  modules :: "ModuleContent list"
  summary :: string
  reviewQuestions :: "string list option"


section \<open>The remote capability and the run-time environment\<close>

text \<open>
  Everything a service function can throw. \<open>ApiKeyNotFound\<close> is the error of \<open>getClient\<close>,
  \<open>Rejected\<close> a rejected \<open>generateContent\<close> promise, \<open>SyntaxError\<close> and \<open>TypeError\<close> what
  \<open>JSON.parse\<close> and a property read on \<open>null\<close> or \<open>undefined\<close> throw, and
  \<open>CallbackError\<close> what a progress callback throws.
\<close>

datatype error = ApiKeyNotFound | Rejected | SyntaxError | TypeError | CallbackError

text \<open>
  The repository holds two copies of the service module: one with doc comments, which
  reads the API key from the local storage first, and an earlier one. For the plan
  assembly they differ in \<open>getClient\<close> and in the end-of-day step; the functions that
  depend on the difference take the copy as an argument.
\<close>

datatype serviceCopy = Documented | Earlier

text \<open>
  A prompt is a template literal; it is represented by the template it comes from and the
  values interpolated into it, in the order of the source. \<open>outcomesText\<close> is kept as its
  numbered lines, and the joined module titles as the list of titles.
\<close>

datatype request =
    StructurePrompt string string nat "(nat \<times> string) list"
  | ModuleDetailPrompt string "string option" int "(nat \<times> string) list"
  | EndOfDayPrompt int string "string option list"
  | RefinePrompt string string

text \<open>The two messages that \<open>generateFinalPlanContent\<close> sends to the progress sink.\<close>

datatype progress = WritingContent int "string option" | FinalizingDay int

text \<open>
  The objects that \<open>JSON.parse\<close> yields for the structure request and for the end-of-day
  request, seen through the properties the code reads.
\<close>

record RawModule =
  id_raw :: "string option"
  title_raw :: "string option"
  duration_raw :: "string option"

record RawDay =
  dayNumber_raw :: int
  modules_raw :: "RawModule list"

record SummaryJSON =
  summary_json :: "string option"
  reviewQuestions_json :: "string list option"

text \<open>
  The environment of the service module, with the remote service in a state of type \<open>'r\<close>:
  \<^item> \<open>localStorageKey\<close> is \<open>localStorage.getItem('MY_TTT_API_KEY')\<close> and \<open>envApiKey\<close> is
    \<open>process.env.API_KEY\<close> (\<open>None\<close> also where \<open>process\<close> is undefined or the read throws);
    the earlier copy of the service module reads the environment only, which is the case
    \<open>localStorageKey = None\<close>;
  \<^item> \<open>generateContent\<close> is \<open>ai.models.generateContent\<close> of the client built on an API key:
    it rejects, or resolves to a response of which only \<open>text\<close> is read (possibly
    \<open>undefined\<close>), and moves the remote state on;
  \<^item> \<open>parseModule\<close>, \<open>parseSummary\<close> and \<open>parseDays\<close> are \<open>JSON.parse\<close> at the three types
    its result is used at; an \<open>Inl\<close> stands for the \<open>SyntaxError\<close> of \<open>JSON.parse\<close> and, for
    \<open>parseSummary\<close>, for the \<open>TypeError\<close> of reading a property of \<open>null\<close>;
  \<^item> \<open>mintId dIdx mIdx\<close> is the value of the template \<open>d${dIdx}-m${mIdx}-${Date.now()}\<close>.
\<close>

record 'r runtime =
  localStorageKey :: "string option"
  envApiKey :: "string option"
  generateContent :: "string \<Rightarrow> request \<Rightarrow> 'r \<Rightarrow> (error + string option) \<times> 'r"
  parseModule :: "string \<Rightarrow> error + ModuleContent"
  parseSummary :: "string \<Rightarrow> error + SummaryJSON"
  parseDays :: "string \<Rightarrow> error + RawDay list"
  mintId :: "nat \<Rightarrow> nat \<Rightarrow> string"

section \<open>The service module\<close>

text \<open>A string option is truthy when it is a non-empty string.\<close>

definition truthy :: "string option \<Rightarrow> bool" where
  "truthy v = (case v of None \<Rightarrow> False | Some s \<Rightarrow> s \<noteq> [])"

text \<open>\<open>v || d\<close> for an optional string \<open>v\<close> and a string \<open>d\<close>.\<close>

definition or_else :: "string option \<Rightarrow> string \<Rightarrow> string" where
  "or_else v d = (case v of None \<Rightarrow> d | Some s \<Rightarrow> if s = [] then d else s)"

definition getApiKey :: "'r runtime \<Rightarrow> string option" where
  "getApiKey rt =
     (let userKey = localStorageKey rt in
      if truthy userKey then userKey
      else if truthy (envApiKey rt) then envApiKey rt
      else None)"

text \<open>The client is identified by the key it was built on.\<close>

definition getClient :: "'r runtime \<Rightarrow> error + string" where
  "getClient rt =
     (case getApiKey rt of
        None \<Rightarrow> Inl ApiKeyNotFound
      | Some apiKey \<Rightarrow> if apiKey = [] then Inl ApiKeyNotFound else Inr apiKey)"

text \<open>
  \<open>getClient\<close> of either copy: the earlier one does not look at the local storage.
\<close>

definition getClientOf :: "serviceCopy \<Rightarrow> 'r runtime \<Rightarrow> error + string" where
  "getClientOf copy rt =
     (case copy of
        Documented \<Rightarrow> getClient rt
      | Earlier \<Rightarrow> getClient (rt\<lparr> localStorageKey := None \<rparr>))"

text \<open>\<open>outcomes.map((o, i) => `${i + 1}. ${o.text}`).join('\n')\<close>, as its numbered lines.\<close>

definition outcomesText :: "LearningOutcome list \<Rightarrow> (nat \<times> string) list" where
  "outcomesText outcomes = map (\<lambda>(i, lo). (i + 1, text_lo lo)) (enumerate 0 outcomes)"

subsection \<open>Structure generation\<close>

definition toLowerChar :: "char \<Rightarrow> char" where
  "toLowerChar c =
     (case map_of (zip ''ABCDEFGHIJKLMNOPQRSTUVWXYZ'' ''abcdefghijklmnopqrstuvwxyz'') c of
        None \<Rightarrow> c | Some l \<Rightarrow> l)"

definition toLowerCase :: "string \<Rightarrow> string" where
  "toLowerCase s = map toLowerChar s"

fun startsWith :: "string \<Rightarrow> string \<Rightarrow> bool" where
  "startsWith s [] = True"
| "startsWith [] (p # ps) = False"
| "startsWith (c # cs) (p # ps) = (c = p \<and> startsWith cs ps)"

text \<open>\<open>s.includes(sub)\<close> (the name \<open>includes\<close> is reserved): \<open>sub\<close> occurs in \<open>s\<close> at some position.\<close>

fun includes_str :: "string \<Rightarrow> string \<Rightarrow> bool" where
  "includes_str [] sub = (sub = [])"
| "includes_str (c # cs) sub = (startsWith (c # cs) sub \<or> includes_str cs sub)"

text \<open>The day count derived from the duration descriptor (the four \<open>if\<close>s in sequence).\<close>

definition numDaysOf :: "string \<Rightarrow> nat" where
  "numDaysOf dur =
     (let durationLower = toLowerCase dur;
          numDays = 1;
          numDays = (if includes_str durationLower ''2 day'' then 2 else numDays);
          numDays = (if includes_str durationLower ''3 day'' then 3 else numDays);
          numDays = (if includes_str durationLower ''4 day'' then 4 else numDays);
          numDays = (if includes_str durationLower ''5 day'' then 5 else numDays)
      in numDays)"

definition hydrateModule :: "'r runtime \<Rightarrow> nat \<Rightarrow> nat \<Rightarrow> RawModule \<Rightarrow> ModuleContent" where
  "hydrateModule rt dIdx mIdx m =
     \<lparr> id_mod = Some (or_else (id_raw m) (mintId rt dIdx mIdx)),
       title = title_raw m,
       subModules = Some [],
       methodology = Some [],
       resources = Some [],
       duration_mod = duration_raw m,
       slideNumbers = None \<rparr>"

definition hydrateDay :: "'r runtime \<Rightarrow> nat \<Rightarrow> RawDay \<Rightarrow> DayPlan" where
  "hydrateDay rt dIdx d =
     \<lparr> dayNumber = dayNumber_raw d,
       iceBreaker = \<lparr> title_ice = [], description = [], duration_ice = [] \<rparr>,
       recap = (if dayNumber_raw d > 1 then Some ''Recap of previous day'' else None),
       modules = map (\<lambda>(mIdx, m). hydrateModule rt dIdx mIdx m) (enumerate 0 (modules_raw d)),
       summary = ''Key takeaways and Q&A'',
       reviewQuestions = Some [] \<rparr>"

definition generateCourseStructure ::
  "'r runtime \<Rightarrow> CourseBasics \<Rightarrow> LearningOutcome list \<Rightarrow> 'r \<Rightarrow> (error + DayPlan list) \<times> 'r" where
  "generateCourseStructure rt basics outcomes r =
     (case getClient rt of
        Inl e \<Rightarrow> (Inl e, r)
      | Inr ai \<Rightarrow>
          (let numDays = numDaysOf (duration basics);
               prompt = StructurePrompt (courseTitle basics) (duration basics) numDays
                          (outcomesText outcomes)
           in case generateContent rt ai prompt r of
                (Inl e, r') \<Rightarrow> (Inl e, r')
              | (Inr response_text, r') \<Rightarrow>
                  (case parseDays rt (or_else response_text ''[]'') of
                     Inl e \<Rightarrow> (Inl e, r')
                   | Inr rawDays \<Rightarrow>
                       (Inr (map (\<lambda>(dIdx, d). hydrateDay rt dIdx d) (enumerate 0 rawDays)), r'))))"

subsection \<open>Plan assembly\<close>

definition generateModuleDetail ::
  "'r runtime \<Rightarrow> string \<Rightarrow> CourseBasics \<Rightarrow> string option \<Rightarrow> int \<Rightarrow> (nat \<times> string) list \<Rightarrow> 'r
     \<Rightarrow> (error + ModuleContent) \<times> 'r" where
  "generateModuleDetail rt ai basics moduleTitle dayNum outcomesTxt r =
     (case generateContent rt ai
             (ModuleDetailPrompt (courseTitle basics) moduleTitle dayNum outcomesTxt) r of
        (Inl e, r') \<Rightarrow> (Inl e, r')
      | (Inr response_text, r') \<Rightarrow> (parseModule rt (or_else response_text ''{}''), r'))"

text \<open>
  The progress sink is a callback on a state of its own (type \<open>'s\<close>); it returns
  normally with its new state or throws. \<open>None\<close> is the omitted argument.
\<close>

definition notify :: "(progress \<Rightarrow> 's \<Rightarrow> error + 's) option \<Rightarrow> progress \<Rightarrow> 's \<Rightarrow> error + 's" where
  "notify onProgress msg s = (case onProgress of None \<Rightarrow> Inr s | Some f \<Rightarrow> f msg s)"

text \<open>
  The inner loop over \<open>day.modules\<close>, from the current index on: the modules still to do,
  \<open>refinedModules\<close> as pushed so far, the remote state and the sink state. The call of the
  sink stands before the \<open>try\<close>, so what it throws ends the loop and the whole function.
\<close>

fun moduleLoop ::
  "'r runtime \<Rightarrow> string \<Rightarrow> CourseBasics \<Rightarrow> (nat \<times> string) list
     \<Rightarrow> (progress \<Rightarrow> 's \<Rightarrow> error + 's) option
     \<Rightarrow> DayPlan \<Rightarrow> ModuleContent list \<Rightarrow> ModuleContent list \<Rightarrow> 'r \<Rightarrow> 's
     \<Rightarrow> (error + ModuleContent list) \<times> 'r \<times> 's" where
  "moduleLoop rt ai basics outcomesTxt onProgress day [] refinedModules r s =
     (Inr refinedModules, r, s)"
| "moduleLoop rt ai basics outcomesTxt onProgress day (partialMod # rest) refinedModules r s =
     (case notify onProgress (WritingContent (dayNumber day) (title partialMod)) s of
        Inl e \<Rightarrow> (Inl e, r, s)
      | Inr s' \<Rightarrow>
          (case generateModuleDetail rt ai basics (title partialMod) (dayNumber day)
                  outcomesTxt r of
             (Inr fullMod, r') \<Rightarrow>
               moduleLoop rt ai basics outcomesTxt onProgress day rest
                 (refinedModules @
                    [fullMod\<lparr> id_mod := id_mod partialMod, title := title partialMod \<rparr>])
                 r' s'
           | (Inl e, r') \<Rightarrow>
               moduleLoop rt ai basics outcomesTxt onProgress day rest
                 (refinedModules @
                    [partialMod\<lparr> methodology := Some ''Error generating content.'' \<rparr>])
                 r' s'))"

text \<open>
  The body of the second \<open>try\<close> up to \<open>const parsed = JSON.parse(endResp.text || "{}")\<close>:
  the end-of-day request and the parse of its answer, either of which may throw.
\<close>

definition endOfDayParsed ::
  "'r runtime \<Rightarrow> string \<Rightarrow> CourseBasics \<Rightarrow> DayPlan \<Rightarrow> ModuleContent list \<Rightarrow> 'r
     \<Rightarrow> (error + SummaryJSON) \<times> 'r" where
  "endOfDayParsed rt ai basics day refinedModules r =
     (let endOfDayPrompt = EndOfDayPrompt (dayNumber day) (courseTitle basics)
                             (map title refinedModules)
      in case generateContent rt ai endOfDayPrompt r of
           (Inl e, r') \<Rightarrow> (Inl e, r')
         | (Inr response_text, r') \<Rightarrow> (parseSummary rt (or_else response_text ''{}''), r'))"

text \<open>
  What becomes of \<open>summaryData\<close> in the documented copy: the day's own summary and
  questions when the \<open>try\<close> body throws (the \<open>catch\<close> only logs), and otherwise each
  property of the parsed object or, where that is falsy, the day's own. An array is
  truthy even when it is empty.
\<close>

definition summaryData ::
  "'r runtime \<Rightarrow> string \<Rightarrow> CourseBasics \<Rightarrow> DayPlan \<Rightarrow> ModuleContent list \<Rightarrow> 'r
     \<Rightarrow> (string \<times> string list option) \<times> 'r" where
  "summaryData rt ai basics day refinedModules r =
     (case endOfDayParsed rt ai basics day refinedModules r of
        (Inl e, r') \<Rightarrow> ((summary day, reviewQuestions day), r')
      | (Inr parsed, r') \<Rightarrow>
          ((or_else (summary_json parsed) (summary day),
            (case reviewQuestions_json parsed of
               None \<Rightarrow> reviewQuestions day | Some qs \<Rightarrow> Some qs)), r'))"

text \<open>
  The earlier copy differs in this step: after the parse it runs
  \<open>if(parsed.summary) summaryData = parsed\<close>, and its \<open>catch\<close> is empty. With a truthy
  summary the review questions are those of the parsed object, \<open>undefined\<close> when it has
  none; without one the day's own summary and questions stay.
\<close>

definition summaryDataEarlier ::
  "'r runtime \<Rightarrow> string \<Rightarrow> CourseBasics \<Rightarrow> DayPlan \<Rightarrow> ModuleContent list \<Rightarrow> 'r
     \<Rightarrow> (string \<times> string list option) \<times> 'r" where
  "summaryDataEarlier rt ai basics day refinedModules r =
     (case endOfDayParsed rt ai basics day refinedModules r of
        (Inl e, r') \<Rightarrow> ((summary day, reviewQuestions day), r')
      | (Inr parsed, r') \<Rightarrow>
          (case summary_json parsed of
             None \<Rightarrow> ((summary day, reviewQuestions day), r')
           | Some sm \<Rightarrow>
               if sm = [] then ((summary day, reviewQuestions day), r')
               else ((sm, reviewQuestions_json parsed), r')))"

definition summaryDataOf ::
  "serviceCopy \<Rightarrow> 'r runtime \<Rightarrow> string \<Rightarrow> CourseBasics \<Rightarrow> DayPlan \<Rightarrow> ModuleContent list \<Rightarrow> 'r
     \<Rightarrow> (string \<times> string list option) \<times> 'r" where
  "summaryDataOf copy =
     (case copy of Documented \<Rightarrow> summaryData | Earlier \<Rightarrow> summaryDataEarlier)"

text \<open>
  The outer loop over the skeleton, with \<open>refinedDays\<close> as pushed so far. The parameter is
  typed \<open>DayPlan[]\<close>, which is not checked at run time: an element of the array is a day,
  or a value of which \<open>day.modules.length\<close> cannot be read (\<open>null\<close>, \<open>undefined\<close>, an object
  without \<open>modules\<close>), written \<open>None\<close>. That read and the second call of the sink stand
  outside the two \<open>try\<close> blocks, so what they throw ends the whole function.
\<close>

fun dayLoop ::
  "serviceCopy \<Rightarrow> 'r runtime \<Rightarrow> string \<Rightarrow> CourseBasics \<Rightarrow> (nat \<times> string) list
     \<Rightarrow> (progress \<Rightarrow> 's \<Rightarrow> error + 's) option
     \<Rightarrow> DayPlan option list \<Rightarrow> DayPlan list \<Rightarrow> 'r \<Rightarrow> 's
     \<Rightarrow> (error + DayPlan list) \<times> 'r \<times> 's" where
  "dayLoop copy rt ai basics outcomesTxt onProgress [] refinedDays r s =
     (Inr refinedDays, r, s)"
| "dayLoop copy rt ai basics outcomesTxt onProgress (None # rest) refinedDays r s =
     (Inl TypeError, r, s)"
| "dayLoop copy rt ai basics outcomesTxt onProgress (Some day # rest) refinedDays r s =
     (case moduleLoop rt ai basics outcomesTxt onProgress day (modules day) [] r s of
        (Inl e, r1, s1) \<Rightarrow> (Inl e, r1, s1)
      | (Inr refinedModules, r1, s1) \<Rightarrow>
          (case notify onProgress (FinalizingDay (dayNumber day)) s1 of
             Inl e \<Rightarrow> (Inl e, r1, s1)
           | Inr s2 \<Rightarrow>
               (case summaryDataOf copy rt ai basics day refinedModules r1 of
                  ((sm, qs), r2) \<Rightarrow>
                    dayLoop copy rt ai basics outcomesTxt onProgress rest
                      (refinedDays @
                         [day\<lparr> modules := refinedModules, summary := sm,
                               reviewQuestions := qs \<rparr>])
                      r2 s2)))"

definition generateFinalPlanContent ::
  "serviceCopy \<Rightarrow> 'r runtime \<Rightarrow> CourseBasics \<Rightarrow> LearningOutcome list \<Rightarrow> DayPlan option list
     \<Rightarrow> (progress \<Rightarrow> 's \<Rightarrow> error + 's) option \<Rightarrow> 'r \<Rightarrow> 's
     \<Rightarrow> (error + DayPlan list) \<times> 'r \<times> 's" where
  "generateFinalPlanContent copy rt basics outcomes skeleton onProgress r s =
     (case getClientOf copy rt of
        Inl e \<Rightarrow> (Inl e, r, s)
      | Inr ai \<Rightarrow>
          dayLoop copy rt ai basics (outcomesText outcomes) onProgress skeleton [] r s)"

subsection \<open>Refinement of one field\<close>

text \<open>
  \<open>String.prototype.trim\<close> on the characters a \<open>char\<close> can hold: tab, line feed, vertical
  tab, form feed, carriage return, space and the no-break space.
\<close>

definition isWhiteSpace :: "char \<Rightarrow> bool" where
  "isWhiteSpace c =
     (c \<in> set [CHR 0x09, CHR 0x0A, CHR 0x0B, CHR 0x0C, CHR 0x0D, CHR 0x20, CHR 0xA0])"

definition trim :: "string \<Rightarrow> string" where
  "trim s = rev (dropWhile isWhiteSpace (rev (dropWhile isWhiteSpace s)))"

text \<open>\<open>return response.text?.trim() || text\<close>, after the client and the request.\<close>

definition refineContent :: "'r runtime \<Rightarrow> string \<Rightarrow> string \<Rightarrow> 'r \<Rightarrow> (error + string) \<times> 'r" where
  "refineContent rt txt context r =
     (case getClient rt of
        Inl e \<Rightarrow> (Inl e, r)
      | Inr ai \<Rightarrow>
          (case generateContent rt ai (RefinePrompt context txt) r of
             (Inl e, r') \<Rightarrow> (Inl e, r')
           | (Inr response_text, r') \<Rightarrow> (Inr (or_else (map_option trim response_text) txt), r')))"

section \<open>The application\<close>

subsection \<open>handleRefine\<close>

text \<open>
  The state that \<open>handleRefine\<close> works on: the remote state, the flag \<open>isRefining\<close> and the
  document of type \<open>'f\<close> that the callback updates. The flag is set before the call and
  cleared in the \<open>finally\<close> block; the \<open>catch\<close> only logs.
\<close>

definition handleRefine ::
  "'r runtime \<Rightarrow> string \<Rightarrow> string \<Rightarrow> (string \<Rightarrow> 'f \<Rightarrow> 'f) \<Rightarrow> 'r \<times> bool \<times> 'f \<Rightarrow> 'r \<times> bool \<times> 'f" where
  "handleRefine rt currentText context callback st =
     (case st of (r, isRefining, doc) \<Rightarrow>
        if currentText = [] then (r, isRefining, doc)
        else (case refineContent rt currentText context r of
                (Inr res, r') \<Rightarrow> (r', False, callback res doc)
              | (Inl e, r') \<Rightarrow> (r', False, doc)))"

subsection \<open>Module numbering in SessionPlanTable\<close>





subsection \<open>The wizard\<close>

datatype GenerationStatus =
    IDLE | GENERATING_OUTCOMES | GENERATING_STRUCTURE | GENERATING_ICEBREAKERS
  | GENERATING_PLAN | COMPLETE | ERROR

text \<open>
  A handler that awaits a remote call is suspended at its \<open>await\<close> and resumes later, when
  other handlers may have run. What it does then is fixed by the render that created it:
  its \<open>advanceStep\<close> closes over the \<open>maxStepReached\<close> of that render, which the
  continuation carries.
\<close>

datatype continuation =
    AfterOutcomes nat | AfterStructure nat | AfterFinal nat | AfterIceBreakers

text \<open>
  The state variables of \<open>App\<close> that decide which stage is shown, which stages can be
  opened and which buttons are disabled, and the handlers suspended at an \<open>await\<close>.
\<close>

record AppState =
  step :: nat
  maxStepReached :: nat
  status :: GenerationStatus
  suspended :: "continuation list"

definition initialState :: AppState where
  "initialState = \<lparr> step = 1, maxStepReached = 1, status = IDLE, suspended = [] \<rparr>"

definition setStep :: "nat \<Rightarrow> AppState \<Rightarrow> AppState" where
  "setStep n st = st\<lparr> step := n \<rparr>"

definition setMaxStepReached :: "nat \<Rightarrow> AppState \<Rightarrow> AppState" where
  "setMaxStepReached n st = st\<lparr> maxStepReached := n \<rparr>"

definition setStatus :: "GenerationStatus \<Rightarrow> AppState \<Rightarrow> AppState" where
  "setStatus v st = st\<lparr> status := v \<rparr>"

text \<open>
  \<open>advanceStep\<close> as the closure of one render: \<open>captured\<close> is the \<open>maxStepReached\<close> of that
  render, and the two setters write into the current state.
\<close>

definition advanceStep :: "nat \<Rightarrow> nat \<Rightarrow> AppState \<Rightarrow> AppState" where
  "advanceStep captured nextStep st =
     (let st' = setStep nextStep st in
      if nextStep > captured then setMaxStepReached nextStep st' else st')"

definition handleLoad :: "AppState \<Rightarrow> AppState" where
  "handleLoad st = setMaxStepReached 5 (setStep 5 st)"

definition suspend :: "GenerationStatus \<Rightarrow> continuation \<Rightarrow> AppState \<Rightarrow> AppState" where
  "suspend v k st = (setStatus v st)\<lparr> suspended := suspended st @ [k] \<rparr>"

text \<open>
  The part of a handler after its \<open>await\<close>; \<open>ok\<close> tells whether the remote call returned.
  \<open>generateSuggestedOutcomes\<close> advances in its \<open>catch\<close> as well; every handler sets the
  status to \<open>IDLE\<close> in its \<open>finally\<close>.
\<close>

fun resume :: "continuation \<Rightarrow> bool \<Rightarrow> AppState \<Rightarrow> AppState" where
  "resume (AfterOutcomes captured) ok st = setStatus IDLE (advanceStep captured 2 st)"
| "resume (AfterStructure captured) ok st =
     setStatus IDLE (if ok then advanceStep captured 3 st else st)"
| "resume (AfterFinal captured) ok st =
     setStatus IDLE (if ok then advanceStep captured 5 st else st)"
| "resume AfterIceBreakers ok st = setStatus IDLE st"

text \<open>
  The events that change these variables: the logo, the five buttons of the progress
  bar, the buttons of the panel of each stage, the choice or import of a saved course,
  and the return of a suspended handler. A generation event stands for a click whose
  handler passes its first check (a title, three outcomes) and reaches its \<open>await\<close>.
  \<open>PrepareIceBreakers\<close> carries the value of \<open>!iceBreakerOptions[0]\<close>: with it the handler
  goes on to \<open>loadIceBreakerOptions\<close>. A click is handled by the current render, so its
  handler sees the current \<open>maxStepReached\<close>.
\<close>

datatype event =
    ClickLogo
  | ClickProgress nat
  | GoToStep2 | GenerateSuggestedOutcomes
  | BackToBasics | GoToStructure | GenerateStructure
  | BackToOutcomes | GoToIceBreakers | PrepareIceBreakers bool
  | BackToStructure | LoadIceBreakerOptions | GoToFinalPlan | GenerateFinal
  | EditStructure
  | LoadSavedCourse
  | Resume nat bool

text \<open>Where the element that raises the event is rendered and not disabled.\<close>

fun enabled :: "event \<Rightarrow> AppState \<Rightarrow> bool" where
  "enabled ClickLogo st = True"
| "enabled (ClickProgress n) st = (n \<in> {1, 2, 3, 4, 5} \<and> \<not> n > maxStepReached st)"
| "enabled GoToStep2 st = (step st = 1 \<and> maxStepReached st > 1)"
| "enabled GenerateSuggestedOutcomes st = (step st = 1 \<and> status st = IDLE)"
| "enabled BackToBasics st = (step st = 2)"
| "enabled GoToStructure st = (step st = 2 \<and> maxStepReached st > 2)"
| "enabled GenerateStructure st = (step st = 2 \<and> status st = IDLE)"
| "enabled BackToOutcomes st = (step st = 3)"
| "enabled GoToIceBreakers st = (step st = 3 \<and> maxStepReached st > 3)"
| "enabled (PrepareIceBreakers loads) st = (step st = 3)"
| "enabled BackToStructure st = (step st = 4)"
| "enabled LoadIceBreakerOptions st = (step st = 4 \<and> status st \<noteq> GENERATING_ICEBREAKERS)"
| "enabled GoToFinalPlan st = (step st = 4 \<and> maxStepReached st > 4)"
| "enabled GenerateFinal st = (step st = 4 \<and> status st = IDLE)"
| "enabled EditStructure st = (step st = 5)"
| "enabled LoadSavedCourse st = True"
| "enabled (Resume i ok) st = (i < length (suspended st))"

fun handle :: "event \<Rightarrow> AppState \<Rightarrow> AppState" where
  "handle ClickLogo st = setStep 1 st"
| "handle (ClickProgress n) st = (if n \<le> maxStepReached st then setStep n st else st)"
| "handle GoToStep2 st = setStep 2 st"
| "handle GenerateSuggestedOutcomes st =
     suspend GENERATING_OUTCOMES (AfterOutcomes (maxStepReached st)) st"
| "handle BackToBasics st = setStep 1 st"
| "handle GoToStructure st = setStep 3 st"
| "handle GenerateStructure st =
     suspend GENERATING_STRUCTURE (AfterStructure (maxStepReached st)) st"
| "handle BackToOutcomes st = setStep 2 st"
| "handle GoToIceBreakers st = setStep 4 st"
| "handle (PrepareIceBreakers loads) st =
     (let st' = advanceStep (maxStepReached st) 4 st in
      if loads then suspend GENERATING_ICEBREAKERS AfterIceBreakers st' else st')"
| "handle BackToStructure st = setStep 3 st"
| "handle LoadIceBreakerOptions st = suspend GENERATING_ICEBREAKERS AfterIceBreakers st"
| "handle GoToFinalPlan st = setStep 5 st"
| "handle GenerateFinal st = suspend GENERATING_PLAN (AfterFinal (maxStepReached st)) st"
| "handle EditStructure st = setStep 3 st"
| "handle LoadSavedCourse st = handleLoad st"
| "handle (Resume i ok) st =
     (if i < length (suspended st)
      then resume (suspended st ! i) ok
             (st\<lparr> suspended := take i (suspended st) @ drop (Suc i) (suspended st) \<rparr>)
      else st)"

text \<open>A sequence of events, each raised in a state where it is enabled.\<close>

fun run :: "event list \<Rightarrow> AppState \<Rightarrow> AppState option" where
  "run [] st = Some st"
| "run (e # es) st = (if enabled e st then run es (handle e st) else None)"

section \<open>Observing a run of the plan assembly\<close>

text \<open>
  The two branches of the first \<open>try\<close>/\<open>catch\<close> as one function of the skeleton module and
  of the outcome of its detail call.
\<close>

definition assemble :: "ModuleContent \<Rightarrow> error + ModuleContent \<Rightarrow> ModuleContent" where
  "assemble partialMod res =
     (case res of
        Inr fullMod \<Rightarrow> fullMod\<lparr> id_mod := id_mod partialMod, title := title partialMod \<rparr>
      | Inl e \<Rightarrow> partialMod\<lparr> methodology := Some ''Error generating content.'' \<rparr>)"

text \<open>
  What the two loops compute when nothing outside the \<open>try\<close> blocks throws: the modules of
  a day, one day, and the days of a skeleton, each with the remote state left behind.
\<close>

fun enrichAll ::
  "'r runtime \<Rightarrow> string \<Rightarrow> CourseBasics \<Rightarrow> (nat \<times> string) list \<Rightarrow> DayPlan \<Rightarrow> ModuleContent list
     \<Rightarrow> 'r \<Rightarrow> ModuleContent list \<times> 'r" where
  "enrichAll rt ai b ot day [] r = ([], r)"
| "enrichAll rt ai b ot day (m # ms) r =
     (case generateModuleDetail rt ai b (title m) (dayNumber day) ot r of
        (res, r') \<Rightarrow>
          (case enrichAll rt ai b ot day ms r' of
             (out, r'') \<Rightarrow> (assemble m res # out, r'')))"

definition processDay ::
  "serviceCopy \<Rightarrow> 'r runtime \<Rightarrow> string \<Rightarrow> CourseBasics \<Rightarrow> (nat \<times> string) list \<Rightarrow> DayPlan \<Rightarrow> 'r
     \<Rightarrow> DayPlan \<times> 'r" where
  "processDay copy rt ai b ot day r =
     (case enrichAll rt ai b ot day (modules day) r of
        (refinedModules, r1) \<Rightarrow>
          (case summaryDataOf copy rt ai b day refinedModules r1 of
             ((sm, qs), r2) \<Rightarrow>
               (day\<lparr> modules := refinedModules, summary := sm, reviewQuestions := qs \<rparr>, r2)))"

fun processAll ::
  "serviceCopy \<Rightarrow> 'r runtime \<Rightarrow> string \<Rightarrow> CourseBasics \<Rightarrow> (nat \<times> string) list \<Rightarrow> DayPlan list
     \<Rightarrow> 'r \<Rightarrow> DayPlan list \<times> 'r" where
  "processAll copy rt ai b ot [] r = ([], r)"
| "processAll copy rt ai b ot (day # rest) r =
     (case processDay copy rt ai b ot day r of
        (day', r') \<Rightarrow>
          (case processAll copy rt ai b ot rest r' of
             (out, r'') \<Rightarrow> (day' # out, r'')))"

text \<open>
  A sink that is omitted or returns normally on every message, and the sink made of a
  function that only changes the sink state.
\<close>

definition sinkReturns :: "(progress \<Rightarrow> 's \<Rightarrow> error + 's) option \<Rightarrow> bool" where
  "sinkReturns onProgress =
     (case onProgress of None \<Rightarrow> True | Some f \<Rightarrow> (\<forall>msg s. \<exists>s'. f msg s = Inr s'))"

definition returning :: "(progress \<Rightarrow> 's \<Rightarrow> 's) \<Rightarrow> progress \<Rightarrow> 's \<Rightarrow> error + 's" where
  "returning f msg s = Inr (f msg s)"

text \<open>
  The remote state in which the run finds the remote service: after the modules \<open>ms\<close> of a
  day that started in state \<open>r\<close>, and at the start of day \<open>d\<close> of a skeleton whose assembly
  started in state \<open>r\<close>.
\<close>

definition remoteAfterModules ::
  "'r runtime \<Rightarrow> string \<Rightarrow> CourseBasics \<Rightarrow> (nat \<times> string) list \<Rightarrow> DayPlan \<Rightarrow> ModuleContent list
     \<Rightarrow> 'r \<Rightarrow> 'r" where
  "remoteAfterModules rt ai b ot day ms r = fst (snd (moduleLoop rt ai b ot None day ms [] r ()))"

definition remoteAtDay ::
  "serviceCopy \<Rightarrow> 'r runtime \<Rightarrow> string \<Rightarrow> CourseBasics \<Rightarrow> (nat \<times> string) list \<Rightarrow> DayPlan list
     \<Rightarrow> 'r \<Rightarrow> nat \<Rightarrow> 'r" where
  "remoteAtDay copy rt ai b ot skeleton r d =
     fst (snd (dayLoop copy rt ai b ot None (map Some (take d skeleton)) [] r ()))"

text \<open>
  The outcome of the detail call that the run makes for module \<open>j\<close> of a day, and for
  module \<open>j\<close> of day \<open>d\<close> of the skeleton: \<open>Inl\<close> when \<open>generateModuleDetail\<close> throws.
\<close>

definition detailResultOfDay ::
  "'r runtime \<Rightarrow> string \<Rightarrow> CourseBasics \<Rightarrow> (nat \<times> string) list \<Rightarrow> DayPlan \<Rightarrow> 'r \<Rightarrow> nat
     \<Rightarrow> error + ModuleContent" where
  "detailResultOfDay rt ai b ot day r j =
     fst (generateModuleDetail rt ai b (title (modules day ! j)) (dayNumber day) ot
            (remoteAfterModules rt ai b ot day (take j (modules day)) r))"

definition moduleDetailResult ::
  "serviceCopy \<Rightarrow> 'r runtime \<Rightarrow> string \<Rightarrow> CourseBasics \<Rightarrow> (nat \<times> string) list \<Rightarrow> DayPlan list
     \<Rightarrow> 'r \<Rightarrow> nat \<Rightarrow> nat \<Rightarrow> error + ModuleContent" where
  "moduleDetailResult copy rt ai b ot skeleton r d j =
     detailResultOfDay rt ai b ot (skeleton ! d) (remoteAtDay copy rt ai b ot skeleton r d) j"

text \<open>
  The outcome of the end-of-day call that the run makes for day \<open>d\<close> of the skeleton:
  \<open>Inl\<close> when the call or the parse throws, and the parsed object otherwise.
\<close>

definition daySummaryResult ::
  "serviceCopy \<Rightarrow> 'r runtime \<Rightarrow> string \<Rightarrow> CourseBasics \<Rightarrow> (nat \<times> string) list \<Rightarrow> DayPlan list
     \<Rightarrow> 'r \<Rightarrow> nat \<Rightarrow> error + SummaryJSON" where
  "daySummaryResult copy rt ai b ot skeleton r d =
     (let day = skeleton ! d in
      case moduleLoop rt ai b ot None day (modules day) []
             (remoteAtDay copy rt ai b ot skeleton r d) () of
        (Inl e, r1, s1) \<Rightarrow> Inl e
      | (Inr refinedModules, r1, s1) \<Rightarrow> fst (endOfDayParsed rt ai b day refinedModules r1))"

section \<open>The day count in the words of the specification\<close>

text \<open>
  The descriptor mentions \<open>N\<close> days when its lower-cased text contains the digit \<open>N\<close>
  followed by a space and \<open>day\<close>.
\<close>

definition dayPattern :: "nat \<Rightarrow> string" where
  "dayPattern N = (''0123456789'' ! N) # '' day''"

definition mentionsDays :: "string \<Rightarrow> nat \<Rightarrow> bool" where
  "mentionsDays dur N = (\<exists>pre post. toLowerCase dur = pre @ dayPattern N @ post)"

section \<open>The numbering in the words of the specification\<close>




section \<open>Counting the remote calls\<close>

text \<open>
  The same environment with a counter beside the remote state: every call of
  \<open>generateContent\<close> adds one to it.
\<close>

definition counting :: "'r runtime \<Rightarrow> ('r \<times> nat) runtime" where
  "counting rt =
     \<lparr> localStorageKey = localStorageKey rt, envApiKey = envApiKey rt,
       generateContent =
         (\<lambda>ai req (r, calls).
            case generateContent rt ai req r of (res, r') \<Rightarrow> (res, (r', calls + 1))),
       parseModule = parseModule rt, parseSummary = parseSummary rt,
       parseDays = parseDays rt, mintId = mintId rt \<rparr>"

section \<open>A concrete environment\<close>

text \<open>
  A remote service that counts its calls and answers by the request: the detail call is
  rejected for the module titled Budgeting, the end-of-day answer has both properties for
  day 1, a summary only for day 2, questions only for day 4, and is rejected for day 3;
  the structure answer has two days when two are asked for and no text otherwise; the
  refinement answer is blank for the context Blank and rejected for the context Down.
\<close>

definition demoModule :: ModuleContent where
  "demoModule =
     \<lparr> id_mod = Some ''remote-id'', title = Some ''A title from the remote'',
       subModules = Some [''Point one'', ''Point two''], methodology = Some ''Lecture: basics'',
       resources = Some ''Slides'', duration_mod = Some ''2 hours'', slideNumbers = None \<rparr>"

definition demoGenerate :: "string \<Rightarrow> request \<Rightarrow> nat \<Rightarrow> (error + string option) \<times> nat" where
  "demoGenerate ai req n =
     ((case req of
         StructurePrompt c d numDays ot \<Rightarrow> if numDays = 2 then Inr (Some ''two days'') else Inr None
       | ModuleDetailPrompt c t dayNum ot \<Rightarrow>
           if t = Some ''Budgeting'' then Inl Rejected else Inr (Some ''module'')
       | EndOfDayPrompt dayNum c ts \<Rightarrow>
           if dayNum = 1 then Inr (Some ''summary and questions'')
           else if dayNum = 2 then Inr (Some ''summary only'')
           else if dayNum = 4 then Inr (Some ''questions only'')
           else Inl Rejected
       | RefinePrompt c t \<Rightarrow>
           if c = ''Blank'' then Inr (Some [CHR 0x20, CHR 0x0A, CHR 0x09])
           else if c = ''Down'' then Inl Rejected
           else Inr (Some '' Clearer text. '')), n + 1)"

definition demoParseModule :: "string \<Rightarrow> error + ModuleContent" where
  "demoParseModule t =
     (if t = ''{}'' then
        Inr \<lparr> id_mod = None, title = None, subModules = None, methodology = None,
              resources = None, duration_mod = None, slideNumbers = None \<rparr>
      else if t = ''module'' then Inr demoModule
      else Inl SyntaxError)"

definition demoParseSummary :: "string \<Rightarrow> error + SummaryJSON" where
  "demoParseSummary t =
     (if t = ''{}'' then Inr \<lparr> summary_json = None, reviewQuestions_json = None \<rparr>
      else if t = ''summary and questions'' then
        Inr \<lparr> summary_json = Some ''Wrap-up'', reviewQuestions_json = Some [''What was new?''] \<rparr>
      else if t = ''summary only'' then
        Inr \<lparr> summary_json = Some ''Wrap-up'', reviewQuestions_json = None \<rparr>
      else if t = ''questions only'' then
        Inr \<lparr> summary_json = None, reviewQuestions_json = Some [''What was new?''] \<rparr>
      else Inl SyntaxError)"

definition demoParseDays :: "string \<Rightarrow> error + RawDay list" where
  "demoParseDays t =
     (if t = ''[]'' then Inr []
      else if t = ''two days'' then
        Inr [\<lparr> dayNumber_raw = 1,
                modules_raw = [\<lparr> id_raw = None, title_raw = Some ''Welcome'',
                                  duration_raw = Some ''1 hour'' \<rparr>] \<rparr>,
             \<lparr> dayNumber_raw = 2, modules_raw = [] \<rparr>]
      else Inl SyntaxError)"

definition demoRuntime :: "nat runtime" where
  "demoRuntime =
     \<lparr> localStorageKey = Some ''key'', envApiKey = Some ''key'', generateContent = demoGenerate,
       parseModule = demoParseModule, parseSummary = demoParseSummary,
       parseDays = demoParseDays, mintId = (\<lambda>dIdx mIdx. ''minted'') \<rparr>"

definition demoBasics :: CourseBasics where
  "demoBasics =
     \<lparr> trainerName = ''Trainer'', courseTitle = ''Leadership 101'', duration = ''2 Days'',
       location = ''Hall'' \<rparr>"

definition skeletonModule :: "string \<Rightarrow> string \<Rightarrow> ModuleContent" where
  "skeletonModule i t =
     \<lparr> id_mod = Some i, title = Some t, subModules = Some [], methodology = Some [],
       resources = Some [], duration_mod = Some ''1 hour'', slideNumbers = None \<rparr>"

definition skeletonDay :: "int \<Rightarrow> ModuleContent list \<Rightarrow> DayPlan" where
  "skeletonDay n ms =
     \<lparr> dayNumber = n,
       iceBreaker = \<lparr> title_ice = [], description = [], duration_ice = [] \<rparr>,
       recap = (if n > 1 then Some ''Recap of previous day'' else None),
       modules = ms, summary = ''Key takeaways and Q&A'', reviewQuestions = Some [] \<rparr>"

definition demoDay :: DayPlan where
  "demoDay =
     skeletonDay 1 [skeletonModule ''m0'' ''Planning'', skeletonModule ''m1'' ''Budgeting'',
                    skeletonModule ''m2'' ''Reporting'']"

definition demoOut :: "DayPlan list" where
  "demoOut =
     [demoDay\<lparr> modules :=
         [demoModule\<lparr> id_mod := Some ''m0'', title := Some ''Planning'' \<rparr>,
          (skeletonModule ''m1'' ''Budgeting'')\<lparr> methodology := Some ''Error generating content.'' \<rparr>,
          demoModule\<lparr> id_mod := Some ''m2'', title := Some ''Reporting'' \<rparr>],
        summary := ''Wrap-up'', reviewQuestions := Some [''What was new?''] \<rparr>]"

definition threeDays :: "DayPlan list" where
  "threeDays = [skeletonDay 2 [], skeletonDay 3 [], skeletonDay 4 []]"




text \<open>
  Two sequences of events. In the first, a saved course is loaded while the outcomes are
  being generated. In the second, the ice-breaker ideas are then refreshed at stage 4,
  which sets the status back to \<open>IDLE\<close>, and the final plan is generated before the
  outcomes call returns.
\<close>

definition loadWhileGenerating :: "event list" where
  "loadWhileGenerating = [GenerateSuggestedOutcomes, LoadSavedCourse]"

definition twoSuspended :: "event list" where
  "twoSuspended =
     [GenerateSuggestedOutcomes, LoadSavedCourse, ClickProgress 4, LoadIceBreakerOptions,
      Resume 1 True, GenerateFinal]"

lemmas demo_defs =
  demoModule_def demoGenerate_def demoParseModule_def demoParseSummary_def demoParseDays_def
  demoRuntime_def demoBasics_def skeletonModule_def skeletonDay_def demoDay_def
  threeDays_def

lemmas observe_defs =
  moduleDetailResult_def detailResultOfDay_def remoteAtDay_def remoteAfterModules_def
  daySummaryResult_def

lemmas service_defs =
  truthy_def or_else_def getApiKey_def getClient_def getClientOf_def outcomesText_def
  generateModuleDetail_def notify_def endOfDayParsed_def summaryData_def
  summaryDataEarlier_def summaryDataOf_def generateFinalPlanContent_def

lemmas wizard_defs =
  setStep_def setMaxStepReached_def setStatus_def advanceStep_def handleLoad_def suspend_def
  initialState_def

section \<open>How the two loops run\<close>

lemma notify_returns:
  assumes "sinkReturns onP"
  shows "\<exists>s'. notify onP msg s = Inr s'"
  using assms by (cases onP) (simp_all add: sinkReturns_def notify_def)

lemma sinkReturns_simps:
  "sinkReturns None"
  "sinkReturns (Some (returning f))"
  "sinkReturns (map_option returning g)"
  by (cases g; simp add: sinkReturns_def returning_def)+

lemma moduleLoop_Cons:
  "moduleLoop rt ai b ot onP day (m # ms) acc r s =
     (case notify onP (WritingContent (dayNumber day) (title m)) s of
        Inl e \<Rightarrow> (Inl e, r, s)
      | Inr s' \<Rightarrow>
          moduleLoop rt ai b ot onP day ms
            (acc @ [assemble m (fst (generateModuleDetail rt ai b (title m) (dayNumber day) ot r))])
            (snd (generateModuleDetail rt ai b (title m) (dayNumber day) ot r)) s')"
  by (simp add: assemble_def split: prod.splits sum.splits)

lemma enrichAll_Cons:
  "enrichAll rt ai b ot day (m # ms) r =
     (assemble m (fst (generateModuleDetail rt ai b (title m) (dayNumber day) ot r))
        # fst (enrichAll rt ai b ot day ms (snd (generateModuleDetail rt ai b (title m) (dayNumber day) ot r))),
      snd (enrichAll rt ai b ot day ms (snd (generateModuleDetail rt ai b (title m) (dayNumber day) ot r))))"
  by (simp split: prod.splits)

lemma moduleLoop_Inr:
  assumes "fst (moduleLoop rt ai b ot onP day ms acc r s) = Inr out"
  shows "out = acc @ fst (enrichAll rt ai b ot day ms r)
         \<and> fst (snd (moduleLoop rt ai b ot onP day ms acc r s)) = snd (enrichAll rt ai b ot day ms r)"
  using assms
proof (induction ms arbitrary: acc r s)
  case Nil
  then show ?case by simp
next
  case (Cons m ms)
  define x where "x = assemble m (fst (generateModuleDetail rt ai b (title m) (dayNumber day) ot r))"
  define r1 where "r1 = snd (generateModuleDetail rt ai b (title m) (dayNumber day) ot r)"
  have pure: "enrichAll rt ai b ot day (m # ms) r =
                (x # fst (enrichAll rt ai b ot day ms r1), snd (enrichAll rt ai b ot day ms r1))"
    unfolding x_def r1_def by (rule enrichAll_Cons)
  show ?case
  proof (cases "notify onP (WritingContent (dayNumber day) (title m)) s")
    case (Inl e)
    then show ?thesis using Cons.prems by (simp add: moduleLoop_Cons del: moduleLoop.simps)
  next
    case (Inr s')
    then have step: "moduleLoop rt ai b ot onP day (m # ms) acc r s =
                       moduleLoop rt ai b ot onP day ms (acc @ [x]) r1 s'"
      by (simp add: moduleLoop_Cons x_def r1_def del: moduleLoop.simps)
    have "fst (moduleLoop rt ai b ot onP day ms (acc @ [x]) r1 s') = Inr out"
      using Cons.prems by (simp only: step)
    from Cons.IH [OF this] show ?thesis
      by (simp only: step pure fst_conv snd_conv) simp
  qed
qed

lemma moduleLoop_returns:
  assumes "sinkReturns onP"
  shows "\<exists>s'. moduleLoop rt ai b ot onP day ms acc r s =
           (Inr (acc @ fst (enrichAll rt ai b ot day ms r)), snd (enrichAll rt ai b ot day ms r), s')"
proof (induction ms arbitrary: acc r s)
  case Nil
  show ?case by simp
next
  case (Cons m ms)
  define x where "x = assemble m (fst (generateModuleDetail rt ai b (title m) (dayNumber day) ot r))"
  define r1 where "r1 = snd (generateModuleDetail rt ai b (title m) (dayNumber day) ot r)"
  have pure: "enrichAll rt ai b ot day (m # ms) r =
                (x # fst (enrichAll rt ai b ot day ms r1), snd (enrichAll rt ai b ot day ms r1))"
    unfolding x_def r1_def by (rule enrichAll_Cons)
  obtain s' where "notify onP (WritingContent (dayNumber day) (title m)) s = Inr s'"
    using notify_returns [OF assms, of "WritingContent (dayNumber day) (title m)" s] by auto
  then have step: "moduleLoop rt ai b ot onP day (m # ms) acc r s =
                     moduleLoop rt ai b ot onP day ms (acc @ [x]) r1 s'"
    by (simp add: moduleLoop_Cons x_def r1_def del: moduleLoop.simps)
  from Cons.IH [of "acc @ [x]" r1 s'] show ?case
    by (simp only: step pure fst_conv snd_conv) simp
qed

lemma remoteAfterModules_eq:
  "remoteAfterModules rt ai b ot day ms r = snd (enrichAll rt ai b ot day ms r)"
  using moduleLoop_returns [OF sinkReturns_simps(1), of rt ai b ot day ms "[]" r "()"]
  by (auto simp add: remoteAfterModules_def)

lemma enrichAll_length: "length (fst (enrichAll rt ai b ot day ms r)) = length ms"
  by (induction ms arbitrary: r) (simp_all only: enrichAll_Cons enrichAll.simps(1) fst_conv, simp_all)

lemma enrichAll_append:
  "enrichAll rt ai b ot day (xs @ ys) r =
     (fst (enrichAll rt ai b ot day xs r)
        @ fst (enrichAll rt ai b ot day ys (snd (enrichAll rt ai b ot day xs r))),
      snd (enrichAll rt ai b ot day ys (snd (enrichAll rt ai b ot day xs r))))"
  by (induction xs arbitrary: r)
     (simp_all add: enrichAll_Cons del: enrichAll.simps(2))

lemma enrichAll_nth:
  assumes "j < length ms"
  shows "fst (enrichAll rt ai b ot day ms r) ! j =
           assemble (ms ! j)
             (fst (generateModuleDetail rt ai b (title (ms ! j)) (dayNumber day) ot
                    (remoteAfterModules rt ai b ot day (take j ms) r)))"
proof -
  have split: "ms = take j ms @ (ms ! j) # drop (Suc j) ms"
    using assms by (simp add: id_take_nth_drop)
  have len: "length (fst (enrichAll rt ai b ot day (take j ms) r)) = j"
    using assms by (simp add: enrichAll_length)
  have "fst (enrichAll rt ai b ot day ms r) =
          fst (enrichAll rt ai b ot day (take j ms) r)
            @ fst (enrichAll rt ai b ot day ((ms ! j) # drop (Suc j) ms)
                     (snd (enrichAll rt ai b ot day (take j ms) r)))"
    by (subst split) (simp add: enrichAll_append del: enrichAll.simps(2))
  then show ?thesis
    by (simp add: nth_append len enrichAll_Cons remoteAfterModules_eq del: enrichAll.simps(2))
qed

lemma processAll_Cons:
  "processAll copy rt ai b ot (day # rest) r =
     (fst (processDay copy rt ai b ot day r)
        # fst (processAll copy rt ai b ot rest (snd (processDay copy rt ai b ot day r))),
      snd (processAll copy rt ai b ot rest (snd (processDay copy rt ai b ot day r))))"
  by (simp split: prod.splits)

lemma dayLoop_Some_Inr:
  assumes "moduleLoop rt ai b ot onP day (modules day) [] r s = (Inr mods, r1, s1)"
    and "notify onP (FinalizingDay (dayNumber day)) s1 = Inr s2"
  shows "dayLoop copy rt ai b ot onP (Some day # rest) acc r s =
           dayLoop copy rt ai b ot onP rest (acc @ [fst (processDay copy rt ai b ot day r)])
             (snd (processDay copy rt ai b ot day r)) s2"
proof -
  have "fst (moduleLoop rt ai b ot onP day (modules day) [] r s) = Inr mods"
    using assms(1) by simp
  from moduleLoop_Inr [OF this] assms(1)
  have "mods = fst (enrichAll rt ai b ot day (modules day) r)"
    and "r1 = snd (enrichAll rt ai b ot day (modules day) r)"
    by simp_all
  then show ?thesis
    using assms by (simp add: processDay_def split: prod.splits del: moduleLoop.simps)
qed

lemma dayLoop_Some_returns:
  assumes "sinkReturns onP"
  shows "\<exists>s'. dayLoop copy rt ai b ot onP (Some day # rest) acc r s =
           dayLoop copy rt ai b ot onP rest (acc @ [fst (processDay copy rt ai b ot day r)])
             (snd (processDay copy rt ai b ot day r)) s'"
proof -
  obtain s1 where m: "moduleLoop rt ai b ot onP day (modules day) [] r s =
      (Inr ([] @ fst (enrichAll rt ai b ot day (modules day) r)),
       snd (enrichAll rt ai b ot day (modules day) r), s1)"
    using moduleLoop_returns [OF assms, of rt ai b ot day "modules day" "[]" r s] by auto
  obtain s2 where n: "notify onP (FinalizingDay (dayNumber day)) s1 = Inr s2"
    using notify_returns [OF assms, of "FinalizingDay (dayNumber day)" s1] by auto
  show ?thesis
    using dayLoop_Some_Inr [OF m n, of copy rest acc] by (intro exI [of _ s2])
qed

lemma dayLoop_returns:
  assumes "sinkReturns onP"
  shows "\<exists>s'. dayLoop copy rt ai b ot onP (map Some days) acc r s =
           (Inr (acc @ fst (processAll copy rt ai b ot days r)),
            snd (processAll copy rt ai b ot days r), s')"
proof (induction days arbitrary: acc r s)
  case Nil
  show ?case by simp
next
  case (Cons day days)
  obtain s' where step: "dayLoop copy rt ai b ot onP (Some day # map Some days) acc r s =
           dayLoop copy rt ai b ot onP (map Some days) (acc @ [fst (processDay copy rt ai b ot day r)])
             (snd (processDay copy rt ai b ot day r)) s'"
    using dayLoop_Some_returns [OF assms, of copy rt ai b ot day "map Some days" acc r s] by auto
  from Cons.IH [of "acc @ [fst (processDay copy rt ai b ot day r)]"
                   "snd (processDay copy rt ai b ot day r)" s']
  show ?case
    by (simp only: list.map step processAll_Cons fst_conv snd_conv) simp
qed

lemma dayLoop_Inr:
  assumes "fst (dayLoop copy rt ai b ot onP entries acc r s) = Inr out"
  shows "\<exists>days. entries = map Some days
           \<and> out = acc @ fst (processAll copy rt ai b ot days r)
           \<and> fst (snd (dayLoop copy rt ai b ot onP entries acc r s)) =
               snd (processAll copy rt ai b ot days r)"
  using assms
proof (induction entries arbitrary: acc r s)
  case Nil
  then show ?case by simp
next
  case (Cons entry entries)
  show ?case
  proof (cases entry)
    case None
    then show ?thesis using Cons.prems by simp
  next
    case (Some day)
    obtain res r1 s1 where m: "moduleLoop rt ai b ot onP day (modules day) [] r s = (res, r1, s1)"
      by (cases "moduleLoop rt ai b ot onP day (modules day) [] r s") auto
    show ?thesis
    proof (cases res)
      case (Inl e)
      then show ?thesis using Cons.prems Some m by (simp del: moduleLoop.simps)
    next
      case (Inr mods)
      note mods = this
      show ?thesis
      proof (cases "notify onP (FinalizingDay (dayNumber day)) s1")
        case (Inl e)
        then show ?thesis using Cons.prems Some m mods by (simp del: moduleLoop.simps)
      next
        case (Inr s2)
        have step: "dayLoop copy rt ai b ot onP (entry # entries) acc r s =
                      dayLoop copy rt ai b ot onP entries
                        (acc @ [fst (processDay copy rt ai b ot day r)])
                        (snd (processDay copy rt ai b ot day r)) s2"
          unfolding Some using dayLoop_Some_Inr [OF m [unfolded mods] Inr] .
        have "fst (dayLoop copy rt ai b ot onP entries
                        (acc @ [fst (processDay copy rt ai b ot day r)])
                        (snd (processDay copy rt ai b ot day r)) s2) = Inr out"
          using Cons.prems by (simp only: step)
        from Cons.IH [OF this] obtain days where
          d: "entries = map Some days"
          and o: "out = (acc @ [fst (processDay copy rt ai b ot day r)])
                    @ fst (processAll copy rt ai b ot days (snd (processDay copy rt ai b ot day r)))"
          and rr: "fst (snd (dayLoop copy rt ai b ot onP entries
                        (acc @ [fst (processDay copy rt ai b ot day r)])
                        (snd (processDay copy rt ai b ot day r)) s2)) =
                   snd (processAll copy rt ai b ot days (snd (processDay copy rt ai b ot day r)))"
          by blast
        have "entry # entries = map Some (day # days)"
          using d Some by simp
        moreover have "out = acc @ fst (processAll copy rt ai b ot (day # days) r)"
          using o by (simp only: processAll_Cons fst_conv) simp
        moreover have "fst (snd (dayLoop copy rt ai b ot onP (entry # entries) acc r s)) =
                         snd (processAll copy rt ai b ot (day # days) r)"
          using rr by (simp only: step processAll_Cons snd_conv)
        ultimately show ?thesis by (intro exI [of _ "day # days"] conjI)
      qed
    qed
  qed
qed

lemma dayLoop_malformed:
  assumes "None \<in> set entries"
  shows "\<exists>e. fst (dayLoop copy rt ai b ot onP entries acc r s) = Inl e"
proof (cases "fst (dayLoop copy rt ai b ot onP entries acc r s)")
  case (Inl e)
  then show ?thesis by blast
next
  case (Inr out)
  from dayLoop_Inr [OF this] obtain days where "entries = map Some days" by blast
  then show ?thesis using assms by auto
qed


lemma remoteAtDay_eq:
  "remoteAtDay copy rt ai b ot skeleton r d = snd (processAll copy rt ai b ot (take d skeleton) r)"
  using dayLoop_returns [OF sinkReturns_simps(1), of copy rt ai b ot "take d skeleton" "[]" r "()"]
  by (auto simp add: remoteAtDay_def)

lemma processAll_length: "length (fst (processAll copy rt ai b ot days r)) = length days"
  by (induction days arbitrary: r)
     (simp_all only: processAll_Cons processAll.simps(1) fst_conv, simp_all)

lemma processAll_append:
  "processAll copy rt ai b ot (xs @ ys) r =
     (fst (processAll copy rt ai b ot xs r)
        @ fst (processAll copy rt ai b ot ys (snd (processAll copy rt ai b ot xs r))),
      snd (processAll copy rt ai b ot ys (snd (processAll copy rt ai b ot xs r))))"
  by (induction xs arbitrary: r)
     (simp_all add: processAll_Cons del: processAll.simps(2))

lemma processAll_nth:
  assumes "d < length days"
  shows "fst (processAll copy rt ai b ot days r) ! d =
           fst (processDay copy rt ai b ot (days ! d) (remoteAtDay copy rt ai b ot days r d))"
proof -
  have split: "days = take d days @ (days ! d) # drop (Suc d) days"
    using assms by (simp add: id_take_nth_drop)
  have len: "length (fst (processAll copy rt ai b ot (take d days) r)) = d"
    using assms by (simp add: processAll_length)
  have "fst (processAll copy rt ai b ot days r) =
          fst (processAll copy rt ai b ot (take d days) r)
            @ fst (processAll copy rt ai b ot ((days ! d) # drop (Suc d) days)
                     (snd (processAll copy rt ai b ot (take d days) r)))"
    by (subst split) (simp add: processAll_append del: processAll.simps(2))
  then show ?thesis
    by (simp add: nth_append len processAll_Cons remoteAtDay_eq del: processAll.simps(2))
qed

lemma processDay_fields:
  "dayNumber (fst (processDay copy rt ai b ot day r)) = dayNumber day"
  "iceBreaker (fst (processDay copy rt ai b ot day r)) = iceBreaker day"
  "recap (fst (processDay copy rt ai b ot day r)) = recap day"
  "modules (fst (processDay copy rt ai b ot day r)) = fst (enrichAll rt ai b ot day (modules day) r)"
  by (simp_all add: processDay_def split: prod.splits)

lemma processDay_summary:
  "summary (fst (processDay copy rt ai b ot day r)) =
     fst (fst (summaryDataOf copy rt ai b day (fst (enrichAll rt ai b ot day (modules day) r))
                 (snd (enrichAll rt ai b ot day (modules day) r))))"
  "reviewQuestions (fst (processDay copy rt ai b ot day r)) =
     snd (fst (summaryDataOf copy rt ai b day (fst (enrichAll rt ai b ot day (modules day) r))
                 (snd (enrichAll rt ai b ot day (modules day) r))))"
  by (simp_all add: processDay_def split: prod.splits)

lemma daySummaryResult_eq:
  "daySummaryResult copy rt ai b ot skeleton r d =
     fst (endOfDayParsed rt ai b (skeleton ! d)
            (fst (enrichAll rt ai b ot (skeleton ! d) (modules (skeleton ! d))
                    (remoteAtDay copy rt ai b ot skeleton r d)))
            (snd (enrichAll rt ai b ot (skeleton ! d) (modules (skeleton ! d))
                    (remoteAtDay copy rt ai b ot skeleton r d))))"
  using moduleLoop_returns [OF sinkReturns_simps(1), of rt ai b ot "skeleton ! d"
          "modules (skeleton ! d)" "[]" "remoteAtDay copy rt ai b ot skeleton r d" "()"]
  by (auto simp add: daySummaryResult_def Let_def simp del: moduleLoop.simps)

lemma final_with_client:
  assumes "getClientOf copy rt = Inr ai"
  shows "generateFinalPlanContent copy rt b outcomes skeleton onP r s =
           dayLoop copy rt ai b (outcomesText outcomes) onP skeleton [] r s"
  using assms by (simp add: generateFinalPlanContent_def)

lemma final_without_client:
  assumes "getClientOf copy rt = Inl e"
  shows "generateFinalPlanContent copy rt b outcomes skeleton onP r s = (Inl e, r, s)"
  using assms by (simp add: generateFinalPlanContent_def)

lemma final_returns:
  assumes "getClientOf copy rt = Inr ai" and "sinkReturns onP"
  shows "fst (generateFinalPlanContent copy rt b outcomes (map Some skeleton) onP r s) =
           Inr (fst (processAll copy rt ai b (outcomesText outcomes) skeleton r))"
  using dayLoop_returns [OF assms(2), of copy rt ai b "outcomesText outcomes" skeleton "[]" r s]
  by (auto simp add: final_with_client [OF assms(1)])

lemma final_Inr:
  assumes "fst (generateFinalPlanContent copy rt b outcomes entries onP r s) = Inr out"
  shows "\<exists>ai days. getClientOf copy rt = Inr ai \<and> entries = map Some days
           \<and> out = fst (processAll copy rt ai b (outcomesText outcomes) days r)"
proof (cases "getClientOf copy rt")
  case (Inl e)
  then show ?thesis using assms by (simp add: final_without_client)
next
  case (Inr ai)
  then have "fst (dayLoop copy rt ai b (outcomesText outcomes) onP entries [] r s) = Inr out"
    using assms by (simp add: final_with_client)
  from dayLoop_Inr [OF this] obtain days where
    "entries = map Some days" and "out = fst (processAll copy rt ai b (outcomesText outcomes) days r)"
    by auto
  then show ?thesis using Inr by (intro exI [of _ ai] exI [of _ days] conjI)
qed

lemma plan_modules:
  assumes "d < length skeleton"
  shows "length (modules (fst (processAll copy rt ai b ot skeleton r) ! d)) =
           length (modules (skeleton ! d))"
    and "j < length (modules (skeleton ! d)) \<Longrightarrow>
           modules (fst (processAll copy rt ai b ot skeleton r) ! d) ! j =
             assemble (modules (skeleton ! d) ! j)
               (moduleDetailResult copy rt ai b ot skeleton r d j)"
  by (simp_all add: processAll_nth [OF assms] processDay_fields enrichAll_length enrichAll_nth
        moduleDetailResult_def detailResultOfDay_def)

lemma assemble_fields:
  "id_mod (assemble m res) = id_mod m"
  "title (assemble m res) = title m"
  by (simp_all add: assemble_def split: sum.splits)

lemma getClient_eq:
  "getClient rt =
     (if truthy (localStorageKey rt) then Inr (the (localStorageKey rt))
      else if truthy (envApiKey rt) then Inr (the (envApiKey rt))
      else Inl ApiKeyNotFound)"
  by (cases "localStorageKey rt"; cases "envApiKey rt")
     (simp_all add: getClient_def getApiKey_def truthy_def)

lemma summaryDataOf_cases:
  "fst (summaryDataOf copy rt ai b day ms r) =
     (case fst (endOfDayParsed rt ai b day ms r) of
        Inl e \<Rightarrow> (summary day, reviewQuestions day)
      | Inr parsed \<Rightarrow>
          (case copy of
             Documented \<Rightarrow>
               (or_else (summary_json parsed) (summary day),
                (case reviewQuestions_json parsed of
                   None \<Rightarrow> reviewQuestions day | Some qs \<Rightarrow> Some qs))
           | Earlier \<Rightarrow>
               (if truthy (summary_json parsed)
                then (the (summary_json parsed), reviewQuestions_json parsed)
                else (summary day, reviewQuestions day))))"
  by (cases copy)
     (simp_all add: summaryDataOf_def summaryData_def summaryDataEarlier_def truthy_def
        split: prod.splits sum.splits option.splits)

lemma plan_summary:
  assumes "d < length skeleton"
  shows "(summary (fst (processAll copy rt ai b ot skeleton r) ! d),
          reviewQuestions (fst (processAll copy rt ai b ot skeleton r) ! d)) =
     (case daySummaryResult copy rt ai b ot skeleton r d of
        Inl e \<Rightarrow> (summary (skeleton ! d), reviewQuestions (skeleton ! d))
      | Inr parsed \<Rightarrow>
          (case copy of
             Documented \<Rightarrow>
               (or_else (summary_json parsed) (summary (skeleton ! d)),
                (case reviewQuestions_json parsed of
                   None \<Rightarrow> reviewQuestions (skeleton ! d) | Some qs \<Rightarrow> Some qs))
           | Earlier \<Rightarrow>
               (if truthy (summary_json parsed)
                then (the (summary_json parsed), reviewQuestions_json parsed)
                else (summary (skeleton ! d), reviewQuestions (skeleton ! d)))))"
  unfolding processAll_nth [OF assms] processDay_summary daySummaryResult_eq
  by (simp only: prod.collapse summaryDataOf_cases)

lemma demo_run:
  "generateFinalPlanContent Documented demoRuntime demoBasics [] [Some demoDay] None (0::nat) () =
     (Inr demoOut, 4, ())"
  by (simp add: demo_defs service_defs demoOut_def)


section \<open>Plan assembly: the progress sink and the failure of the whole operation\<close>




text \<open>
  C5 as stated fails for the empty skeleton: with an API key it is not an error. The loop
  over the days does not run and the empty schedule is returned.
\<close>

theorem C5_empty_skeleton_counterexample:
  "getClientOf Documented demoRuntime = Inr ''key''
   \<and> generateFinalPlanContent Documented demoRuntime demoBasics [] [] None (0::nat) () =
       (Inr [], 0, ())"
  by (simp add: demo_defs service_defs)

text \<open>
  C5, amended. \<open>generateFinalPlanContent\<close> raises an error to its caller when a structural
  error occurs outside the two \<open>try\<close> scopes: when there is no API key (\<open>getClient\<close> throws
  before the loops), and when the skeleton is malformed, that is, has an entry whose
  \<open>modules\<close> cannot be read. The empty skeleton is not such an error: with a key the empty
  schedule is returned. With a key, a progress callback that returns normally (or none)
  and a skeleton of days, it returns a schedule with one day per day of the skeleton for
  every environment, so whatever the remote calls inside the per-module and per-day
  \<open>try\<close> scopes do.
\<close>

theorem C5_failure_condition:
  "(\<not> truthy (envApiKey rt) \<and> (copy = Earlier \<or> \<not> truthy (localStorageKey rt)) \<longrightarrow>
      generateFinalPlanContent copy rt basics outcomes skeleton onProgress r s =
        (Inl ApiKeyNotFound, r, s))
   \<and> (None \<in> set skeleton \<longrightarrow>
      (\<exists>e. fst (generateFinalPlanContent copy rt basics outcomes skeleton onProgress r s) = Inl e))
   \<and> (\<forall>ai. getClientOf copy rt = Inr ai \<longrightarrow>
          generateFinalPlanContent copy rt basics outcomes [] onProgress r s = (Inr [], r, s))
   \<and> (\<forall>ai. getClientOf copy rt = Inr ai \<and> sinkReturns onProgress \<longrightarrow>
          (\<exists>out. fst (generateFinalPlanContent copy rt basics outcomes (map Some days) onProgress
                        r s) = Inr out
                 \<and> length out = length days))"
proof (intro conjI impI allI)
  assume "\<not> truthy (envApiKey rt) \<and> (copy = Earlier \<or> \<not> truthy (localStorageKey rt))"
  then have "getClientOf copy rt = Inl ApiKeyNotFound"
    by (cases copy) (auto simp add: getClientOf_def getClient_eq truthy_def)
  then show "generateFinalPlanContent copy rt basics outcomes skeleton onProgress r s =
               (Inl ApiKeyNotFound, r, s)"
    by (rule final_without_client)
next
  assume bad: "None \<in> set skeleton"
  show "\<exists>e. fst (generateFinalPlanContent copy rt basics outcomes skeleton onProgress r s) = Inl e"
  proof (cases "getClientOf copy rt")
    case (Inl e)
    then show ?thesis by (simp add: final_without_client)
  next
    case (Inr ai)
    show ?thesis
      unfolding final_with_client [OF Inr] by (rule dayLoop_malformed [OF bad])
  qed
next
  fix ai assume "getClientOf copy rt = Inr ai"
  then show "generateFinalPlanContent copy rt basics outcomes [] onProgress r s = (Inr [], r, s)"
    by (simp add: final_with_client)
next
  fix ai assume "getClientOf copy rt = Inr ai \<and> sinkReturns onProgress"
  then show "\<exists>out. fst (generateFinalPlanContent copy rt basics outcomes (map Some days) onProgress
                        r s) = Inr out \<and> length out = length days"
    by (simp add: final_returns processAll_length)
qed

theorem C5_failure_condition_witness:
  "\<not> truthy (envApiKey (demoRuntime\<lparr> envApiKey := None \<rparr>))
   \<and> generateFinalPlanContent Earlier (demoRuntime\<lparr> envApiKey := None \<rparr>) demoBasics []
         [Some demoDay] None (0::nat) () = (Inl ApiKeyNotFound, 0, ())
   \<and> None \<in> set [Some demoDay, None]
   \<and> fst (generateFinalPlanContent Documented demoRuntime demoBasics [] [Some demoDay, None] None
            (0::nat) ()) = Inl TypeError
   \<and> getClientOf Documented demoRuntime = Inr ''key''
   \<and> generateFinalPlanContent Documented demoRuntime demoBasics [] [] None (0::nat) () =
       (Inr [], 0, ())
   \<and> sinkReturns (None :: (progress \<Rightarrow> unit \<Rightarrow> error + unit) option)
   \<and> (\<exists>out. fst (generateFinalPlanContent Documented demoRuntime demoBasics []
                    (map Some [demoDay]) None (0::nat) ()) = Inr out
          \<and> length out = length [demoDay])"
proof -
  have nokey: "\<not> truthy (envApiKey (demoRuntime\<lparr> envApiKey := None \<rparr>))"
    by (simp add: demoRuntime_def truthy_def)
  have bad: "None \<in> set [Some demoDay, None]" by simp
  have key: "getClientOf Documented demoRuntime = Inr ''key''"
    by (simp add: demo_defs service_defs)
  have ok: "sinkReturns (None :: (progress \<Rightarrow> unit \<Rightarrow> error + unit) option)"
    by (simp add: sinkReturns_def)
  note a = C5_failure_condition [of "demoRuntime\<lparr> envApiKey := None \<rparr>" Earlier demoBasics "[]"
             "[Some demoDay]" None "0::nat" "()" "[]"]
  note b = C5_failure_condition [of demoRuntime Documented demoBasics "[]"
             "[Some demoDay, None]" None "0::nat" "()" "[demoDay]"]
  have c1: "generateFinalPlanContent Earlier (demoRuntime\<lparr> envApiKey := None \<rparr>) demoBasics []
         [Some demoDay] None (0::nat) () = (Inl ApiKeyNotFound, 0, ())"
    using a [THEN conjunct1] nokey by simp
  have "\<exists>e. fst (generateFinalPlanContent Documented demoRuntime demoBasics [] [Some demoDay, None]
                    None (0::nat) ()) = Inl e"
    using b [THEN conjunct2, THEN conjunct1] bad by simp
  then have c2: "fst (generateFinalPlanContent Documented demoRuntime demoBasics []
                        [Some demoDay, None] None (0::nat) ()) = Inl TypeError"
    by (simp add: demo_defs service_defs)
  have c3: "generateFinalPlanContent Documented demoRuntime demoBasics [] [] None (0::nat) () =
       (Inr [], 0, ())"
    using b [THEN conjunct2, THEN conjunct2, THEN conjunct1, rule_format, OF key] .
  have c4: "\<exists>out. fst (generateFinalPlanContent Documented demoRuntime demoBasics []
                    (map Some [demoDay]) None (0::nat) ()) = Inr out
          \<and> length out = length [demoDay]"
    using b [THEN conjunct2, THEN conjunct2, THEN conjunct2, rule_format, of "''key''"] key ok
    by simp
  show ?thesis
    by (intro conjI) (rule nokey c1 bad c2 key c3 ok c4)+
qed

section \<open>Plan assembly: what becomes of each module\<close>

text \<open>
  C2. Whenever \<open>generateFinalPlanContent\<close> returns a schedule for a skeleton of days, it has
  as many days as the skeleton, each day has as many modules as the skeleton's day, and
  the module at every position of every day has the \<open>id\<close> and the \<open>title\<close> of the
  skeleton's module at that position. The copy of the service module, the environment
  and the callback are arbitrary, so this holds whatever \<open>id\<close> or \<open>title\<close> the remote
  response carries and whether the detail call succeeds or throws.
\<close>

theorem C2_identity_preservation:
  assumes "fst (generateFinalPlanContent copy rt basics outcomes (map Some skeleton) onProgress r s)
             = Inr out"
  shows "length out = length skeleton
         \<and> (\<forall>d<length skeleton.
               length (modules (out ! d)) = length (modules (skeleton ! d))
               \<and> (\<forall>i<length (modules (skeleton ! d)).
                     id_mod (modules (out ! d) ! i) = id_mod (modules (skeleton ! d) ! i)
                     \<and> title (modules (out ! d) ! i) = title (modules (skeleton ! d) ! i)))"
proof -
  obtain ai days where ai: "getClientOf copy rt = Inr ai"
    and days: "map Some skeleton = map Some days"
    and out: "out = fst (processAll copy rt ai basics (outcomesText outcomes) days r)"
    using final_Inr [OF assms] by auto
  have "inj (Some :: DayPlan \<Rightarrow> DayPlan option)" by (simp add: inj_on_def)
  then have same: "days = skeleton"
    using days by simp
  have len: "length out = length skeleton"
    by (simp add: out same processAll_length)
  have mods: "length (modules (out ! d)) = length (modules (skeleton ! d))"
    if "d < length skeleton" for d
    unfolding out same by (rule plan_modules(1) [OF that])
  have ids: "id_mod (modules (out ! d) ! i) = id_mod (modules (skeleton ! d) ! i)
             \<and> title (modules (out ! d) ! i) = title (modules (skeleton ! d) ! i)"
    if "d < length skeleton" and "i < length (modules (skeleton ! d))" for d i
    unfolding out same plan_modules(2) [OF that] by (simp add: assemble_fields)
  show ?thesis
    using len mods ids by blast
qed

theorem C2_identity_preservation_witness:
  "fst (generateFinalPlanContent Documented demoRuntime demoBasics [] (map Some [demoDay]) None
          (0::nat) ()) = Inr demoOut
   \<and> length demoOut = length [demoDay]
   \<and> length (modules (demoOut ! 0)) = length (modules ([demoDay] ! 0))
   \<and> id_mod (demoModule) = Some ''remote-id''
   \<and> id_mod (modules (demoOut ! 0) ! 0) = id_mod (modules ([demoDay] ! 0) ! 0)
   \<and> title (modules (demoOut ! 0) ! 0) = title (modules ([demoDay] ! 0) ! 0)
   \<and> id_mod (modules (demoOut ! 0) ! 1) = id_mod (modules ([demoDay] ! 0) ! 1)
   \<and> title (modules (demoOut ! 0) ! 1) = title (modules ([demoDay] ! 0) ! 1)"
  using C2_identity_preservation [of Documented demoRuntime demoBasics "[]" "[demoDay]" None
          "0::nat" "()" demoOut]
  by (simp add: demo_run) (simp add: demo_defs demoOut_def)



section \<open>Plan assembly: the summary and the review questions of a day\<close>

text \<open>
  C4 as stated fails, in both copies of the service module. The end-of-day answer for
  day 2 has a summary and no \<open>reviewQuestions\<close>. In the documented copy the returned day
  takes that summary and does not keep the summary of the skeleton; in the earlier copy
  it takes the summary as well, and its review questions are no longer those of the
  skeleton.
\<close>

theorem C4_partial_output_counterexample:
  "daySummaryResult Documented demoRuntime ''key'' demoBasics (outcomesText [])
       [skeletonDay 2 []] 0 0 =
     Inr \<lparr> summary_json = Some ''Wrap-up'', reviewQuestions_json = None \<rparr>
   \<and> fst (generateFinalPlanContent Documented demoRuntime demoBasics [] [Some (skeletonDay 2 [])]
            None (0::nat) ()) =
       Inr [(skeletonDay 2 [])\<lparr> summary := ''Wrap-up'' \<rparr>]
   \<and> fst (generateFinalPlanContent Earlier demoRuntime demoBasics [] [Some (skeletonDay 2 [])]
            None (0::nat) ()) =
       Inr [(skeletonDay 2 [])\<lparr> summary := ''Wrap-up'', reviewQuestions := None \<rparr>]
   \<and> summary (skeletonDay 2 []) = ''Key takeaways and Q&A''
   \<and> reviewQuestions (skeletonDay 2 []) = Some []"
  by (simp add: observe_defs service_defs demo_defs)

text \<open>
  C4, amended. For every day of a run with an API key and a progress callback that
  returns normally (or none), in either copy of the service module, no error of the
  end-of-day call reaches the caller. When the call or the parse of its answer throws,
  the returned day keeps the summary and the review questions of the skeleton. When the
  parsed answer has no non-empty summary, the day keeps the skeleton's summary, and
  otherwise the answer's summary replaces it. In the documented copy the review
  questions fall back on their own: the day keeps the skeleton's when the answer has
  none, and otherwise the answer's replace them. In the earlier copy the day keeps the
  skeleton's review questions when the answer has no non-empty summary, and the answer's
  review questions replace them when the answer has both.
\<close>

theorem C4_day_finalizer_containment:
  assumes "getClientOf copy rt = Inr ai" and "sinkReturns onProgress" and "d < length skeleton"
  shows "\<exists>out. fst (generateFinalPlanContent copy rt basics outcomes (map Some skeleton) onProgress
                     r s) = Inr out
           \<and> (\<forall>e. daySummaryResult copy rt ai basics (outcomesText outcomes) skeleton r d = Inl e
                  \<longrightarrow> summary (out ! d) = summary (skeleton ! d)
                       \<and> reviewQuestions (out ! d) = reviewQuestions (skeleton ! d))
           \<and> (\<forall>parsed.
                 daySummaryResult copy rt ai basics (outcomesText outcomes) skeleton r d = Inr parsed
                 \<longrightarrow> (\<not> truthy (summary_json parsed) \<longrightarrow>
                         summary (out ! d) = summary (skeleton ! d))
                     \<and> (truthy (summary_json parsed) \<longrightarrow>
                         Some (summary (out ! d)) = summary_json parsed)
                     \<and> (copy = Documented \<longrightarrow>
                          (reviewQuestions_json parsed = None \<longrightarrow>
                             reviewQuestions (out ! d) = reviewQuestions (skeleton ! d))
                          \<and> (\<forall>qs. reviewQuestions_json parsed = Some qs \<longrightarrow>
                                 reviewQuestions (out ! d) = Some qs))
                     \<and> (copy = Earlier \<longrightarrow>
                          (\<not> truthy (summary_json parsed) \<longrightarrow>
                             reviewQuestions (out ! d) = reviewQuestions (skeleton ! d))
                          \<and> (\<forall>qs. truthy (summary_json parsed)
                                   \<and> reviewQuestions_json parsed = Some qs \<longrightarrow>
                                 reviewQuestions (out ! d) = Some qs)))"
proof -
  define out where "out = fst (processAll copy rt ai basics (outcomesText outcomes) skeleton r)"
  have res: "fst (generateFinalPlanContent copy rt basics outcomes (map Some skeleton) onProgress
                    r s) = Inr out"
    unfolding out_def by (rule final_returns [OF assms(1,2)])
  note ps = plan_summary [OF assms(3), of copy rt ai basics "outcomesText outcomes" r,
              folded out_def]
  have thrown: "summary (out ! d) = summary (skeleton ! d)
                \<and> reviewQuestions (out ! d) = reviewQuestions (skeleton ! d)"
    if "daySummaryResult copy rt ai basics (outcomesText outcomes) skeleton r d = Inl e" for e
    using ps that by simp
  have parsed: "(\<not> truthy (summary_json parsed) \<longrightarrow> summary (out ! d) = summary (skeleton ! d))
                \<and> (truthy (summary_json parsed) \<longrightarrow> Some (summary (out ! d)) = summary_json parsed)
                \<and> (copy = Documented \<longrightarrow>
                     (reviewQuestions_json parsed = None \<longrightarrow>
                        reviewQuestions (out ! d) = reviewQuestions (skeleton ! d))
                     \<and> (\<forall>qs. reviewQuestions_json parsed = Some qs \<longrightarrow>
                            reviewQuestions (out ! d) = Some qs))
                \<and> (copy = Earlier \<longrightarrow>
                     (\<not> truthy (summary_json parsed) \<longrightarrow>
                        reviewQuestions (out ! d) = reviewQuestions (skeleton ! d))
                     \<and> (\<forall>qs. truthy (summary_json parsed)
                              \<and> reviewQuestions_json parsed = Some qs \<longrightarrow>
                            reviewQuestions (out ! d) = Some qs))"
    if "daySummaryResult copy rt ai basics (outcomesText outcomes) skeleton r d = Inr parsed"
    for parsed
    using ps that
    by (cases copy) (auto simp add: truthy_def or_else_def split: option.splits if_splits)
  show ?thesis
    using res thrown parsed by (intro exI [of _ out] conjI allI impI) blast+
qed

theorem C4_day_finalizer_containment_witness:
  "getClientOf Documented demoRuntime = Inr ''key''
   \<and> getClientOf Earlier demoRuntime = Inr ''key''
   \<and> sinkReturns (None :: (progress \<Rightarrow> unit \<Rightarrow> error + unit) option)
   \<and> daySummaryResult Documented demoRuntime ''key'' demoBasics (outcomesText []) threeDays 0 0 =
       Inr \<lparr> summary_json = Some ''Wrap-up'', reviewQuestions_json = None \<rparr>
   \<and> daySummaryResult Documented demoRuntime ''key'' demoBasics (outcomesText []) threeDays 0 1 =
       Inl Rejected
   \<and> daySummaryResult Documented demoRuntime ''key'' demoBasics (outcomesText []) threeDays 0 2 =
       Inr \<lparr> summary_json = None, reviewQuestions_json = Some [''What was new?''] \<rparr>
   \<and> (\<exists>out. fst (generateFinalPlanContent Documented demoRuntime demoBasics []
                    (map Some threeDays) None (0::nat) ()) = Inr out
          \<and> summary (out ! 0) = ''Wrap-up''
          \<and> reviewQuestions (out ! 0) = reviewQuestions (threeDays ! 0)
          \<and> summary (out ! 1) = summary (threeDays ! 1)
          \<and> reviewQuestions (out ! 1) = reviewQuestions (threeDays ! 1)
          \<and> summary (out ! 2) = summary (threeDays ! 2)
          \<and> reviewQuestions (out ! 2) = Some [''What was new?''])
   \<and> daySummaryResult Earlier demoRuntime ''key'' demoBasics (outcomesText [])
         [skeletonDay 1 [], skeletonDay 4 []] 0 0 =
       Inr \<lparr> summary_json = Some ''Wrap-up'', reviewQuestions_json = Some [''What was new?''] \<rparr>
   \<and> daySummaryResult Earlier demoRuntime ''key'' demoBasics (outcomesText [])
         [skeletonDay 1 [], skeletonDay 4 []] 0 1 =
       Inr \<lparr> summary_json = None, reviewQuestions_json = Some [''What was new?''] \<rparr>
   \<and> (\<exists>out. fst (generateFinalPlanContent Earlier demoRuntime demoBasics []
                    (map Some [skeletonDay 1 [], skeletonDay 4 []]) None (0::nat) ()) = Inr out
          \<and> summary (out ! 0) = ''Wrap-up''
          \<and> reviewQuestions (out ! 0) = Some [''What was new?'']
          \<and> summary (out ! 1) = summary ([skeletonDay 1 [], skeletonDay 4 []] ! 1)
          \<and> reviewQuestions (out ! 1) = reviewQuestions ([skeletonDay 1 [], skeletonDay 4 []] ! 1))"
proof -
  let ?two = "[skeletonDay 1 [], skeletonDay 4 []]"
  let ?none = "None :: (progress \<Rightarrow> unit \<Rightarrow> error + unit) option"
  have key: "getClientOf Documented demoRuntime = Inr ''key''"
    by (simp add: demo_defs service_defs)
  have key': "getClientOf Earlier demoRuntime = Inr ''key''"
    by (simp add: demo_defs service_defs)
  have ok: "sinkReturns ?none"
    by (simp add: sinkReturns_def)
  have r0: "daySummaryResult Documented demoRuntime ''key'' demoBasics (outcomesText []) threeDays
              0 0 = Inr \<lparr> summary_json = Some ''Wrap-up'', reviewQuestions_json = None \<rparr>"
    by (simp add: observe_defs service_defs demo_defs)
  have r1: "daySummaryResult Documented demoRuntime ''key'' demoBasics (outcomesText []) threeDays
              0 1 = Inl Rejected"
    by (simp add: observe_defs service_defs demo_defs)
  have r2: "daySummaryResult Documented demoRuntime ''key'' demoBasics (outcomesText []) threeDays
              0 2 = Inr \<lparr> summary_json = None, reviewQuestions_json = Some [''What was new?''] \<rparr>"
    by (simp add: observe_defs service_defs demo_defs)
  have e0: "daySummaryResult Earlier demoRuntime ''key'' demoBasics (outcomesText []) ?two 0 0 =
              Inr \<lparr> summary_json = Some ''Wrap-up'',
                    reviewQuestions_json = Some [''What was new?''] \<rparr>"
    by (simp add: observe_defs service_defs demo_defs)
  have e1: "daySummaryResult Earlier demoRuntime ''key'' demoBasics (outcomesText []) ?two 0 1 =
              Inr \<lparr> summary_json = None, reviewQuestions_json = Some [''What was new?''] \<rparr>"
    by (simp add: observe_defs service_defs demo_defs)
  have len: "0 < length threeDays" "1 < length threeDays" "2 < length threeDays"
    by (simp_all add: threeDays_def)
  have len': "0 < length ?two" "1 < length ?two"
    by simp_all
  define out where
    "out = fst (processAll Documented demoRuntime ''key'' demoBasics (outcomesText []) threeDays
                  (0::nat))"
  define out' where
    "out' = fst (processAll Earlier demoRuntime ''key'' demoBasics (outcomesText []) ?two
                   (0::nat))"
  have res: "fst (generateFinalPlanContent Documented demoRuntime demoBasics []
                    (map Some threeDays) ?none (0::nat) ()) = Inr out"
    unfolding out_def by (rule final_returns [OF key ok])
  have res': "fst (generateFinalPlanContent Earlier demoRuntime demoBasics []
                    (map Some ?two) ?none (0::nat) ()) = Inr out'"
    unfolding out'_def by (rule final_returns [OF key' ok])
  have c0: "summary (out ! 0) = ''Wrap-up''
            \<and> reviewQuestions (out ! 0) = reviewQuestions (threeDays ! 0)"
    using C4_day_finalizer_containment [OF key ok len(1), of demoBasics "[]" "0::nat" "()"] res r0
    by (simp add: truthy_def)
  have c1: "summary (out ! 1) = summary (threeDays ! 1)
            \<and> reviewQuestions (out ! 1) = reviewQuestions (threeDays ! 1)"
    using C4_day_finalizer_containment [OF key ok len(2), of demoBasics "[]" "0::nat" "()"] res r1
    by simp
  have c2: "summary (out ! 2) = summary (threeDays ! 2)
            \<and> reviewQuestions (out ! 2) = Some [''What was new?'']"
    using C4_day_finalizer_containment [OF key ok len(3), of demoBasics "[]" "0::nat" "()"] res r2
    by (simp add: truthy_def)
  have d0: "summary (out' ! 0) = ''Wrap-up''
            \<and> reviewQuestions (out' ! 0) = Some [''What was new?'']"
    using C4_day_finalizer_containment [OF key' ok len'(1), of demoBasics "[]" "0::nat" "()"]
      res' e0
    by (simp add: truthy_def)
  have d1: "summary (out' ! 1) = summary (?two ! 1)
            \<and> reviewQuestions (out' ! 1) = reviewQuestions (?two ! 1)"
    using C4_day_finalizer_containment [OF key' ok len'(2), of demoBasics "[]" "0::nat" "()"]
      res' e1
    by (simp add: truthy_def)
  have doc: "\<exists>out. fst (generateFinalPlanContent Documented demoRuntime demoBasics []
                    (map Some threeDays) ?none (0::nat) ()) = Inr out
          \<and> summary (out ! 0) = ''Wrap-up''
          \<and> reviewQuestions (out ! 0) = reviewQuestions (threeDays ! 0)
          \<and> summary (out ! 1) = summary (threeDays ! 1)
          \<and> reviewQuestions (out ! 1) = reviewQuestions (threeDays ! 1)
          \<and> summary (out ! 2) = summary (threeDays ! 2)
          \<and> reviewQuestions (out ! 2) = Some [''What was new?'']"
    using res c0 c1 c2 by (intro exI [of _ out]) simp
  have earlier: "\<exists>out. fst (generateFinalPlanContent Earlier demoRuntime demoBasics []
                    (map Some ?two) ?none (0::nat) ()) = Inr out
          \<and> summary (out ! 0) = ''Wrap-up''
          \<and> reviewQuestions (out ! 0) = Some [''What was new?'']
          \<and> summary (out ! 1) = summary (?two ! 1)
          \<and> reviewQuestions (out ! 1) = reviewQuestions (?two ! 1)"
    using res' d0 d1 by (intro exI [of _ out']) simp
  show ?thesis
    by (intro conjI) (rule key key' ok r0 r1 r2 doc e0 e1 earlier)+
qed

section \<open>Structure generation: the number of days\<close>

lemma startsWith_iff: "startsWith s p \<longleftrightarrow> (\<exists>post. s = p @ post)"
  by (induction s p rule: startsWith.induct) auto

lemma includes_str_iff: "includes_str s sub \<longleftrightarrow> (\<exists>pre post. s = pre @ sub @ post)"
proof (induction s)
  case Nil
  show ?case by auto
next
  case (Cons c cs)
  show ?case
  proof
    assume "includes_str (c # cs) sub"
    then consider "startsWith (c # cs) sub" | "includes_str cs sub" by auto
    then show "\<exists>pre post. c # cs = pre @ sub @ post"
    proof cases
      case 1
      then obtain post where "c # cs = sub @ post" by (auto simp: startsWith_iff)
      then have "c # cs = [] @ sub @ post" by simp
      then show ?thesis by blast
    next
      case 2
      then obtain pre post where "cs = pre @ sub @ post" using Cons.IH by blast
      then have "c # cs = (c # pre) @ sub @ post" by simp
      then show ?thesis by blast
    qed
  next
    assume "\<exists>pre post. c # cs = pre @ sub @ post"
    then obtain pre post where eq: "c # cs = pre @ sub @ post" by blast
    show "includes_str (c # cs) sub"
    proof (cases pre)
      case Nil
      then have "startsWith (c # cs) sub" using eq by (auto simp: startsWith_iff)
      then show ?thesis by simp
    next
      case (Cons p ps)
      then have "cs = ps @ sub @ post" using eq by simp
      then have "includes_str cs sub" using Cons.IH by blast
      then show ?thesis by simp
    qed
  qed
qed

lemma mentionsDays_code:
  "mentionsDays dur N = includes_str (toLowerCase dur) (dayPattern N)"
  by (simp add: mentionsDays_def includes_str_iff)

lemma dayPattern_simps:
  "dayPattern 2 = ''2 day''" "dayPattern 3 = ''3 day''" "dayPattern 4 = ''4 day''" "dayPattern 5 = ''5 day''"
  by (simp_all add: dayPattern_def)

lemma Max_days:
  "Max (insert (1::nat) {N \<in> {2, 3, 4, 5}. P N}) =
     (if P 5 then 5 else if P 4 then 4 else if P 3 then 3 else if P 2 then 2 else 1)"
proof -
  have "{N \<in> {2, 3, 4, 5}. P N} =
          (if P 2 then {2::nat} else {}) \<union> (if P 3 then {3} else {})
          \<union> (if P 4 then {4} else {}) \<union> (if P 5 then {5} else {})"
    by auto
  then show ?thesis by simp
qed

lemma numDaysOf_Max:
  "numDaysOf dur = Max (insert 1 {N \<in> {2, 3, 4, 5}. mentionsDays dur N})"
  unfolding Max_days
  by (simp add: numDaysOf_def Let_def mentionsDays_code dayPattern_simps)

lemma hydrate_dayNumbers:
  "map dayNumber (map (\<lambda>(dIdx, d). hydrateDay rt dIdx d) (enumerate n rawDays)) =
     map dayNumber_raw rawDays"
  by (induction rawDays arbitrary: n) (simp_all add: hydrateDay_def)

text \<open>
  C3 as stated fails: the number of skeletons is the number of entries of the remote
  answer, which the code does not compare with the day count of the descriptor. For the
  descriptor \<open>3 Days\<close> and an answer without text, \<open>JSON.parse("[]")\<close> gives no entry and
  no skeleton is returned.
\<close>

theorem C3_no_answer_counterexample:
  "includes_str (toLowerCase ''3 Days'') ''3 day''
   \<and> generateCourseStructure demoRuntime (demoBasics\<lparr> duration := ''3 Days'' \<rparr>) [] (0::nat) =
       (Inr [], 1)"
  by (simp add: demo_defs service_defs generateCourseStructure_def numDaysOf_def toLowerCase_def
        toLowerChar_def Let_def)

text \<open>
  C3, amended. The day count that \<open>generateCourseStructure\<close> puts into its prompt is the
  largest \<open>N\<close> of 2..5 that the duration descriptor mentions, and 1 when it mentions none
  of them. When the call with that prompt and the parse of its answer succeed, the
  function returns one skeleton per entry of the answer, in order, each with the
  \<open>dayNumber\<close> of its entry: exactly \<open>N\<close> skeletons numbered 1..N when the answer has \<open>N\<close>
  entries numbered 1..N.
\<close>

theorem C3_structure_generator:
  assumes "getClient rt = Inr ai"
    and "generateContent rt ai
           (StructurePrompt (courseTitle basics) (duration basics) (numDaysOf (duration basics))
              (outcomesText outcomes)) r = (Inr response_text, r')"
    and "parseDays rt (or_else response_text ''[]'') = Inr rawDays"
  shows "numDaysOf (duration basics) =
           Max (insert 1 {N \<in> {2, 3, 4, 5}. mentionsDays (duration basics) N})
         \<and> (\<exists>days. generateCourseStructure rt basics outcomes r = (Inr days, r')
                \<and> length days = length rawDays
                \<and> map dayNumber days = map dayNumber_raw rawDays)"
proof -
  define days where "days = map (\<lambda>(dIdx, d). hydrateDay rt dIdx d) (enumerate 0 rawDays)"
  have run: "generateCourseStructure rt basics outcomes r = (Inr days, r')"
    using assms by (simp add: generateCourseStructure_def Let_def days_def)
  have len: "length days = length rawDays"
    by (simp add: days_def)
  have nums: "map dayNumber days = map dayNumber_raw rawDays"
    unfolding days_def by (rule hydrate_dayNumbers)
  show ?thesis
    using numDaysOf_Max [of "duration basics"] run len nums by blast
qed

theorem C3_structure_generator_witness:
  "getClient demoRuntime = Inr ''key''
   \<and> generateContent demoRuntime ''key''
        (StructurePrompt (courseTitle demoBasics) (duration demoBasics)
           (numDaysOf (duration demoBasics)) (outcomesText [])) (0::nat) =
       (Inr (Some ''two days''), 1)
   \<and> parseDays demoRuntime (or_else (Some ''two days'') ''[]'') =
       Inr [\<lparr> dayNumber_raw = 1,
               modules_raw = [\<lparr> id_raw = None, title_raw = Some ''Welcome'',
                                 duration_raw = Some ''1 hour'' \<rparr>] \<rparr>,
            \<lparr> dayNumber_raw = 2, modules_raw = [] \<rparr>]
   \<and> numDaysOf (duration demoBasics) = 2
   \<and> (\<exists>days. generateCourseStructure demoRuntime demoBasics [] (0::nat) = (Inr days, 1)
          \<and> length days = 2
          \<and> map dayNumber days = [1, 2])"
proof -
  have n: "numDaysOf (duration demoBasics) = 2"
    by (simp add: demo_defs numDaysOf_def toLowerCase_def toLowerChar_def Let_def)
  have key: "getClient demoRuntime = Inr ''key''"
    by (simp add: demo_defs service_defs)
  have call: "generateContent demoRuntime ''key''
        (StructurePrompt (courseTitle demoBasics) (duration demoBasics)
           (numDaysOf (duration demoBasics)) (outcomesText [])) (0::nat) =
       (Inr (Some ''two days''), 1)"
    unfolding n by (simp add: demo_defs service_defs)
  have parse: "parseDays demoRuntime (or_else (Some ''two days'') ''[]'') =
       Inr [\<lparr> dayNumber_raw = 1,
               modules_raw = [\<lparr> id_raw = None, title_raw = Some ''Welcome'',
                                 duration_raw = Some ''1 hour'' \<rparr>] \<rparr>,
            \<lparr> dayNumber_raw = 2, modules_raw = [] \<rparr>]"
    by (simp add: demo_defs service_defs)
  from C3_structure_generator [OF key call parse]
  obtain days where days: "generateCourseStructure demoRuntime demoBasics [] (0::nat) = (Inr days, 1)"
    and len: "length days = length [\<lparr> dayNumber_raw = 1,
               modules_raw = [\<lparr> id_raw = None, title_raw = Some ''Welcome'',
                                 duration_raw = Some ''1 hour'' \<rparr>] \<rparr>,
            \<lparr> dayNumber_raw = 2, modules_raw = [] \<rparr>]"
    and nums: "map dayNumber days = map dayNumber_raw [\<lparr> dayNumber_raw = 1,
               modules_raw = [\<lparr> id_raw = None, title_raw = Some ''Welcome'',
                                 duration_raw = Some ''1 hour'' \<rparr>] \<rparr>,
            \<lparr> dayNumber_raw = 2, modules_raw = [] \<rparr>]"
    by blast
  have l2: "length days = 2" using len by simp
  have m2: "map dayNumber days = [1, 2]" using nums by simp
  have ex: "\<exists>days. generateCourseStructure demoRuntime demoBasics [] (0::nat) = (Inr days, 1)
              \<and> length days = 2 \<and> map dayNumber days = [1, 2]"
    by (intro exI [of _ days] conjI) (rule days l2 m2)+
  show ?thesis
    by (intro conjI) (rule key call parse n ex)+
qed

section \<open>Refinement of one field\<close>

lemma trim_empty_iff: "trim t = [] \<longleftrightarrow> (\<forall>c\<in>set t. isWhiteSpace c)"
proof
  assume "trim t = []"
  then have "dropWhile isWhiteSpace (rev (dropWhile isWhiteSpace t)) = []"
    by (simp add: trim_def)
  then have all: "\<forall>c\<in>set (dropWhile isWhiteSpace t). isWhiteSpace c"
    by simp
  have "dropWhile isWhiteSpace t = []"
  proof (cases "dropWhile isWhiteSpace t")
    case Nil
    then show ?thesis .
  next
    case (Cons c cs)
    then have "\<not> isWhiteSpace c" using hd_dropWhile [of isWhiteSpace t] by auto
    moreover have "isWhiteSpace c" using all Cons by simp
    ultimately show ?thesis by simp
  qed
  then show "\<forall>c\<in>set t. isWhiteSpace c"
    by simp
next
  assume "\<forall>c\<in>set t. isWhiteSpace c"
  then have "dropWhile isWhiteSpace t = []" by simp
  then show "trim t = []" by (simp only: trim_def) simp
qed

lemma refineContent_with_client:
  assumes "getClient rt = Inr ai"
    and "generateContent rt ai (RefinePrompt context txt) r = (Inr response_text, r')"
  shows "refineContent rt txt context r = (Inr (or_else (map_option trim response_text) txt), r')"
  using assms by (simp add: refineContent_def)

text \<open>
  C10. Take a call of \<open>refineContent\<close> with an API key whose request is answered. When the
  answer has no text, or a text of white space only (the empty text included),
  \<open>refineContent\<close> returns the input text unchanged. In every case it returns the input
  text or a non-empty text, so the returned text is empty only when the input text was.
\<close>

theorem C10_blank_response_keeps_text:
  assumes "getClient rt = Inr ai"
    and "generateContent rt ai (RefinePrompt context txt) r = (Inr response_text, r')"
  shows "(response_text = None \<or> (\<exists>t. response_text = Some t \<and> (\<forall>c\<in>set t. isWhiteSpace c))
            \<longrightarrow> refineContent rt txt context r = (Inr txt, r'))
         \<and> (\<exists>res. refineContent rt txt context r = (Inr res, r') \<and> (res = txt \<or> res \<noteq> []))"
proof (intro conjI impI)
  assume "response_text = None \<or> (\<exists>t. response_text = Some t \<and> (\<forall>c\<in>set t. isWhiteSpace c))"
  then have "or_else (map_option trim response_text) txt = txt"
    by (auto simp add: or_else_def trim_empty_iff)
  then show "refineContent rt txt context r = (Inr txt, r')"
    by (simp add: refineContent_with_client [OF assms])
next
  have "or_else (map_option trim response_text) txt = txt
        \<or> or_else (map_option trim response_text) txt \<noteq> []"
    by (cases response_text) (simp_all add: or_else_def)
  then show "\<exists>res. refineContent rt txt context r = (Inr res, r') \<and> (res = txt \<or> res \<noteq> [])"
    by (simp add: refineContent_with_client [OF assms])
qed

theorem C10_blank_response_keeps_text_witness:
  "getClient demoRuntime = Inr ''key''
   \<and> generateContent demoRuntime ''key'' (RefinePrompt ''Blank'' ''Original text'') (0::nat) =
       (Inr (Some [CHR 0x20, CHR 0x0A, CHR 0x09]), 1)
   \<and> isWhiteSpace (CHR 0x20) \<and> isWhiteSpace (CHR 0x0A) \<and> isWhiteSpace (CHR 0x09)
   \<and> refineContent demoRuntime ''Original text'' ''Blank'' (0::nat) = (Inr ''Original text'', 1)"
proof -
  have key: "getClient demoRuntime = Inr ''key''"
    by (simp add: demo_defs service_defs)
  have call: "generateContent demoRuntime ''key'' (RefinePrompt ''Blank'' ''Original text'') (0::nat) =
       (Inr (Some [CHR 0x20, CHR 0x0A, CHR 0x09]), 1)"
    by (simp add: demo_defs)
  have ws: "isWhiteSpace (CHR 0x20)" "isWhiteSpace (CHR 0x0A)" "isWhiteSpace (CHR 0x09)"
    by (simp_all add: isWhiteSpace_def)
  have blank: "Some [CHR 0x20, CHR 0x0A, CHR 0x09] = None
      \<or> (\<exists>t. Some [CHR 0x20, CHR 0x0A, CHR 0x09] = Some t \<and> (\<forall>c\<in>set t. isWhiteSpace c))"
    using ws by simp
  have "refineContent demoRuntime ''Original text'' ''Blank'' (0::nat) = (Inr ''Original text'', 1)"
    using C10_blank_response_keeps_text [OF key call] blank by blast
  then show ?thesis
    using key call ws by (intro conjI)
qed

text \<open>
  C9. \<open>handleRefine\<close> with empty current text changes nothing: the remote state, the
  call counter, the flag \<open>isRefining\<close> and the document are as before, so neither the
  remote service nor the callback has been invoked. And when \<open>refineContent\<close> throws,
  the document after \<open>handleRefine\<close> is the document before it.
\<close>

theorem C9_empty_text_is_noop:
  "handleRefine rt [] context callback (r, isRefining, doc) = (r, isRefining, doc)
   \<and> handleRefine (counting rt) [] context callback ((r, calls), isRefining, doc) =
       ((r, calls), isRefining, doc)
   \<and> (\<forall>e. fst (refineContent rt currentText context r) = Inl e \<longrightarrow>
          snd (snd (handleRefine rt currentText context callback (r, isRefining, doc))) = doc)"
proof (intro conjI allI impI)
  show "handleRefine rt [] context callback (r, isRefining, doc) = (r, isRefining, doc)"
    by (simp add: handleRefine_def)
  show "handleRefine (counting rt) [] context callback ((r, calls), isRefining, doc) =
          ((r, calls), isRefining, doc)"
    by (simp add: handleRefine_def)
next
  fix e
  assume thrown: "fst (refineContent rt currentText context r) = Inl e"
  obtain res r' where call: "refineContent rt currentText context r = (res, r')"
    by (cases "refineContent rt currentText context r")
  then have "res = Inl e" using thrown by simp
  then show "snd (snd (handleRefine rt currentText context callback (r, isRefining, doc))) = doc"
    using call by (simp add: handleRefine_def)
qed

theorem C9_empty_text_is_noop_witness:
  "fst (refineContent demoRuntime ''Original text'' ''Down'' (0::nat)) = Inl Rejected
   \<and> snd (snd (handleRefine demoRuntime ''Original text'' ''Down'' (\<lambda>newText doc. newText)
                  (0::nat, False, ''Original text''))) = ''Original text''
   \<and> handleRefine (counting demoRuntime) ''Original text'' ''Down'' (\<lambda>newText doc. newText)
        ((0::nat, 0), False, ''Original text'') = ((1, 1), False, ''Original text'')
   \<and> handleRefine (counting demoRuntime) ''Original text'' ''Methodology'' (\<lambda>newText doc. newText)
        ((0::nat, 0), False, ''Original text'') = ((1, 1), False, ''Clearer text.'')
   \<and> handleRefine (counting demoRuntime) [] ''Methodology'' (\<lambda>newText doc. newText)
        ((0::nat, 0), False, ''Original text'') = ((0, 0), False, ''Original text'')"
proof -
  have fail: "fst (refineContent demoRuntime ''Original text'' ''Down'' (0::nat)) = Inl Rejected"
    by (simp add: refineContent_def demo_defs service_defs)
  have kept: "snd (snd (handleRefine demoRuntime ''Original text'' ''Down'' (\<lambda>newText doc. newText)
                  (0::nat, False, ''Original text''))) = ''Original text''"
    using C9_empty_text_is_noop [of demoRuntime "''Down''" "\<lambda>newText doc. newText" 0 False
            "''Original text''" 0 "''Original text''"] fail
    by blast
  have down: "handleRefine (counting demoRuntime) ''Original text'' ''Down'' (\<lambda>newText doc. newText)
        ((0::nat, 0), False, ''Original text'') = ((1, 1), False, ''Original text'')"
    by (simp add: handleRefine_def refineContent_def counting_def demo_defs service_defs)
  have ok: "handleRefine (counting demoRuntime) ''Original text'' ''Methodology'' (\<lambda>newText doc. newText)
        ((0::nat, 0), False, ''Original text'') = ((1, 1), False, ''Clearer text.'')"
    by (simp add: handleRefine_def refineContent_def counting_def demo_defs service_defs
          trim_def isWhiteSpace_def)
  have noop: "handleRefine (counting demoRuntime) [] ''Methodology'' (\<lambda>newText doc. newText)
        ((0::nat, 0), False, ''Original text'') = ((0, 0), False, ''Original text'')"
    by (simp add: handleRefine_def)
  show ?thesis
    by (intro conjI) (rule fail kept down ok noop)+
qed

section \<open>Module numbering\<close>









section \<open>The wizard\<close>

text \<open>
  C7. The invariant of the wizard (the active stage is at most \<open>maxStepReached\<close>, and
  \<open>maxStepReached\<close> never decreases) is not kept by the code. \<open>advanceStep\<close> compares the new
  stage with the \<open>maxStepReached\<close> of the render in which its handler started. A saved
  course is loaded while the outcomes are being generated: \<open>maxStepReached\<close> is 5, and when
  the generation returns it is set to 2. In the longer run the final plan is generated
  as well before the outcomes return, and the run ends at stage 5 with \<open>maxStepReached\<close>
  at 2.
\<close>

theorem C7_stale_closure_lowers_maxStepReached:
  "run loadWhileGenerating initialState =
     Some \<lparr> step = 5, maxStepReached = 5, status = GENERATING_OUTCOMES,
            suspended = [AfterOutcomes 1] \<rparr>
   \<and> run (loadWhileGenerating @ [Resume 0 True]) initialState =
       Some \<lparr> step = 2, maxStepReached = 2, status = IDLE, suspended = [] \<rparr>
   \<and> run twoSuspended initialState =
       Some \<lparr> step = 4, maxStepReached = 5, status = GENERATING_PLAN,
              suspended = [AfterOutcomes 1, AfterFinal 5] \<rparr>
   \<and> run (twoSuspended @ [Resume 0 True, Resume 0 True]) initialState =
       Some \<lparr> step = 5, maxStepReached = 2, status = IDLE, suspended = [] \<rparr>"
  by (simp add: loadWhileGenerating_def twoSuspended_def wizard_defs)

end
